theory Spec2Isabelle
  imports Complex_Main "HOL-Library.Multiset"
begin

section \<open>JavaScript strings\<close>

text \<open>
  A JavaScript string is a sequence of UTF-16 code units; a code unit is modelled as a
  natural number and a string as a list of them. The character classes are those of
  the regular-expression engine without the unicode flag: \<open>\w\<close> is
  \<open>[A-Za-z0-9_]\<close>, \<open>\s\<close> is the white space and line terminator
  set, which is also what \<open>trim\<close> removes. The case mappings
  \<open>toLowerCase\<close> and \<open>toUpperCase\<close> are those of the code units up
  to U+00FF; higher code units are left unchanged by the model.
\<close>

type_synonym jsstring = "nat list"

definition js :: "string \<Rightarrow> jsstring" where
  "js s = map of_char s"

definition isWordChar :: "nat \<Rightarrow> bool" where
  "isWordChar c = ((48 \<le> c \<and> c \<le> 57) \<or> (65 \<le> c \<and> c \<le> 90) \<or> c = 95 \<or> (97 \<le> c \<and> c \<le> 122))"

definition isSpace :: "nat \<Rightarrow> bool" where
  "isSpace c = ((9 \<le> c \<and> c \<le> 13) \<or> c = 32 \<or> c = 160 \<or> c = 5760 \<or> (8192 \<le> c \<and> c \<le> 8202)
     \<or> c = 8232 \<or> c = 8233 \<or> c = 8239 \<or> c = 8287 \<or> c = 12288 \<or> c = 65279)"

section \<open>Structural context analyzer (dom-interpreter.js)\<close>

text \<open>
  \<open>positionWeights\<close> is the object literal of the constructor, as the list of its
  own properties. JavaScript numbers are modelled as real numbers.
\<close>

definition positionWeights :: "(jsstring \<times> real) list" where
  "positionWeights =
     [(js ''title'', 1), (js ''h1'', 9/10), (js ''h2'', 8/10), (js ''h3'', 7/10),
      (js ''articleHeader'', 85/100), (js ''articleBody'', 6/10), (js ''sidebar'', 3/10),
      (js ''footer'', 1/10)]"

text \<open>\<open>this.positionWeights[pos] || 0.5\<close>: a missing property is undefined, and
  undefined and 0 are falsy. (Here and below, a name looked up in an object literal is
  taken to be none of the names that every object inherits, such as
  \<open>constructor\<close>.)\<close>

definition positionWeight :: "jsstring \<Rightarrow> real" where
  "positionWeight pos =
     (case map_of positionWeights pos of
        None \<Rightarrow> 1/2
      | Some w \<Rightarrow> if w = 0 then 1/2 else w)"

text \<open>The loop of \<open>calculateStructuralWeight\<close>, with \<open>maxWeight\<close> as the
  accumulator; the function returns the accumulator started at 0.\<close>

fun structuralWeightLoop :: "real \<Rightarrow> jsstring list \<Rightarrow> real" where
  "structuralWeightLoop maxWeight [] = maxWeight"
| "structuralWeightLoop maxWeight (pos # positions) =
     structuralWeightLoop (max maxWeight (positionWeight pos)) positions"

definition calculateStructuralWeight :: "jsstring list \<Rightarrow> real" where
  "calculateStructuralWeight positions = structuralWeightLoop 0 positions"

text \<open>The weight of the specification: the greatest table weight of the tags present,
  0.5 when no tag is in the table.\<close>

definition specStructuralWeight :: "jsstring list \<Rightarrow> real" where
  "specStructuralWeight positions =
     (let ws = List.map_filter (map_of positionWeights) positions
      in if ws = [] then 1/2 else Max (set ws))"

section \<open>String helpers\<close>

text \<open>\<open>toLowerCase\<close> and \<open>toUpperCase\<close>, code unit by code unit. The upper
  case of U+00DF is the two code units \<open>SS\<close>, of U+00B5 it is U+039C and of U+00FF it
  is U+0178.\<close>

definition lowerUnit :: "nat \<Rightarrow> nat" where
  "lowerUnit c =
     (if (65 \<le> c \<and> c \<le> 90) \<or> (192 \<le> c \<and> c \<le> 222 \<and> c \<noteq> 215) then c + 32 else c)"

definition toLowerCase :: "jsstring \<Rightarrow> jsstring" where
  "toLowerCase s = map lowerUnit s"

definition upperUnit :: "nat \<Rightarrow> jsstring" where
  "upperUnit c =
     (if (97 \<le> c \<and> c \<le> 122) \<or> (224 \<le> c \<and> c \<le> 254 \<and> c \<noteq> 247) then [c - 32]
      else if c = 223 then [83, 83]
      else if c = 181 then [924]
      else if c = 255 then [376]
      else [c])"

definition toUpperCase :: "jsstring \<Rightarrow> jsstring" where
  "toUpperCase s = concat (map upperUnit s)"

definition trim :: "jsstring \<Rightarrow> jsstring" where
  "trim s = rev (dropWhile isSpace (rev (dropWhile isSpace s)))"

text \<open>\<open>String.prototype.includes\<close>: the argument occurs as a contiguous run.\<close>

fun startsWith :: "jsstring \<Rightarrow> jsstring \<Rightarrow> bool" where
  "startsWith s [] = True"
| "startsWith [] (p # ps) = False"
| "startsWith (c # cs) (p # ps) = (c = p \<and> startsWith cs ps)"

fun str_includes :: "jsstring \<Rightarrow> jsstring \<Rightarrow> bool" where
  "str_includes [] sub = (sub = [])"
| "str_includes (c # cs) sub = (startsWith (c # cs) sub \<or> str_includes cs sub)"

text \<open>\<open>replace(/\s+/g, ' ')\<close>: every maximal run of white space becomes one space.\<close>

function collapseSpaces :: "jsstring \<Rightarrow> jsstring" where
  "collapseSpaces [] = []"
| "collapseSpaces (c # cs) =
     (if isSpace c then 32 # collapseSpaces (dropWhile isSpace cs) else c # collapseSpaces cs)"
  by pat_completeness auto
termination
  by (relation "measure length") (auto simp: length_dropWhile_le less_Suc_eq_le)

text \<open>\<open>split(/\s+/)\<close>: the pieces between the maximal runs of white space, empty
  pieces at the ends included. \<open>cur\<close> is the piece being read.\<close>

function splitSpacesFrom :: "jsstring \<Rightarrow> jsstring \<Rightarrow> jsstring list" where
  "splitSpacesFrom cur [] = [cur]"
| "splitSpacesFrom cur (c # cs) =
     (if isSpace c then cur # splitSpacesFrom [] (dropWhile isSpace cs)
      else splitSpacesFrom (cur @ [c]) cs)"
  by pat_completeness auto
termination
  by (relation "measure (\<lambda>(cur, s). length s)") (auto simp: length_dropWhile_le less_Suc_eq_le)

definition splitSpaces :: "jsstring \<Rightarrow> jsstring list" where
  "splitSpaces s = splitSpacesFrom [] s"

text \<open>Decimal digits of a non-negative integer, as \<open>String(n)\<close> prints it.\<close>

fun decimal :: "nat \<Rightarrow> jsstring" where
  "decimal n = (if n < 10 then [48 + n] else decimal (n div 10) @ [48 + n mod 10])"

section \<open>JavaScript values and collections\<close>

text \<open>
  The values that reach the modelled code: undefined, null, booleans, numbers (as their
  mathematical value), strings, and arrays and plain objects. Arrays and objects carry
  the identity of the object (a number), since \<open>Map\<close> and \<open>Set\<close> compare objects
  by identity; the values of a decoded JSON text all have different identities.
\<close>

datatype jsval =
    Undefined
  | Null
  | Bool bool
  | Num real
  | Str jsstring
  | Arr nat "jsval list"
  | Obj nat "(jsstring \<times> jsval) list"

fun truthy :: "jsval \<Rightarrow> bool" where
  "truthy Undefined = False"
| "truthy Null = False"
| "truthy (Bool b) = b"
| "truthy (Num x) = (x \<noteq> 0)"
| "truthy (Str s) = (s \<noteq> [])"
| "truthy (Arr i xs) = True"
| "truthy (Obj i ps) = True"

text \<open>SameValueZero, the equality of \<open>Map\<close> keys and \<open>Set\<close> elements, which on
  these values is also \<open>===\<close>.\<close>

fun sameValue :: "jsval \<Rightarrow> jsval \<Rightarrow> bool" where
  "sameValue (Arr i xs) (Arr j ys) = (i = j)"
| "sameValue (Obj i ps) (Obj j qs) = (i = j)"
| "sameValue a b = (a = b)"

text \<open>A \<open>Map\<close> is the list of its entries in insertion order. \<open>set\<close> on a key that
  is present replaces the value in place; on a new key it appends.\<close>

fun Map_get :: "('k \<Rightarrow> 'k \<Rightarrow> bool) \<Rightarrow> ('k \<times> 'v) list \<Rightarrow> 'k \<Rightarrow> 'v option" where
  "Map_get eq [] k = None"
| "Map_get eq ((k', v) # m) k = (if eq k' k then Some v else Map_get eq m k)"

fun Map_set :: "('k \<Rightarrow> 'k \<Rightarrow> bool) \<Rightarrow> ('k \<times> 'v) list \<Rightarrow> 'k \<Rightarrow> 'v \<Rightarrow> ('k \<times> 'v) list" where
  "Map_set eq [] k v = [(k, v)]"
| "Map_set eq ((k', v') # m) k v =
     (if eq k' k then (k', v) # m else (k', v') # Map_set eq m k v)"

fun Map_delete :: "('k \<Rightarrow> 'k \<Rightarrow> bool) \<Rightarrow> ('k \<times> 'v) list \<Rightarrow> 'k \<Rightarrow> ('k \<times> 'v) list" where
  "Map_delete eq [] k = []"
| "Map_delete eq ((k', v) # m) k = (if eq k' k then m else (k', v) # Map_delete eq m k)"

text \<open>\<open>Set.prototype.add\<close> and \<open>new Set(iterable)\<close>.\<close>

fun Set_add :: "('a \<Rightarrow> 'a \<Rightarrow> bool) \<Rightarrow> 'a list \<Rightarrow> 'a \<Rightarrow> 'a list" where
  "Set_add eq [] x = [x]"
| "Set_add eq (y # ys) x = (if eq y x then y # ys else y # Set_add eq ys x)"

definition Set_of :: "('a \<Rightarrow> 'a \<Rightarrow> bool) \<Rightarrow> 'a list \<Rightarrow> 'a list" where
  "Set_of eq xs = foldl (Set_add eq) [] xs"

section \<open>Extraction result cache (nlp-processor.js)\<close>

text \<open>
  An entity as \<open>performEntityExtraction\<close> builds it, with the knowledge-base match
  that \<open>enhanceEntities\<close> may attach (\<open>knowledgeBase\<close> is the \<open>score\<close> of the
  attached match, \<open>None\<close> when there is none).
\<close>

record entity =
  etext :: jsstring
  normalized :: jsstring
  etype :: jsstring
  confidence :: real
  pattern :: jsstring
  position :: int
  knowledgeBase :: "real option"

text \<open>The object \<open>extractEntities\<close> returns: the validated result, or the empty
  result of the early return and of the catch block (then with the error's message).
  \<open>overall\<close> is its field \<open>confidence\<close>; the field \<open>processingTime\<close> is left
  out.\<close>

record extraction =
  entities :: "entity list"
  overall :: real
  error :: "jsstring option"

record 'r cache_entry =
  data :: 'r
  timestamp :: int

record performanceStats =
  totalProcessed :: nat
  averageTime :: real
  cacheHits :: nat

record processor =
  entityCache :: "(jsstring \<times> extraction cache_entry) list"
  stats :: performanceStats

definition maxInputLength :: nat where
  "maxInputLength = 1000"

definition cacheTimeout :: int where
  "cacheTimeout = 300000"

text \<open>\<open>sanitizeInput\<close>: null for a value that is not a string; otherwise the text cut
  to \<open>maxInputLength\<close>, without \<open><\<close> and \<open>>\<close>, without the control characters
  \<open>[\x00-\x1F\x7F-\x9F]\<close>, with white space collapsed, trimmed.\<close>

definition isControl :: "nat \<Rightarrow> bool" where
  "isControl c = (c \<le> 31 \<or> (127 \<le> c \<and> c \<le> 159))"

definition sanitizeInput :: "jsval \<Rightarrow> jsstring option" where
  "sanitizeInput v =
     (case v of
        Str t \<Rightarrow>
          Some (trim (collapseSpaces (filter (\<lambda>c. \<not> isControl c)
            (filter (\<lambda>c. c \<noteq> 60 \<and> c \<noteq> 62) (take maxInputLength t)))))
      | _ \<Rightarrow> None)"

text \<open>
  \<open>generateCacheKey\<close>. \<open>hash << 5\<close> is a 32-bit signed shift, the subtraction and the
  addition are exact on numbers of this size, and \<open>hash & hash\<close> converts the result to
  a 32-bit signed integer again. The loop reads the first \<open>min(text.length, 100)\<close> code
  units.
\<close>

definition toInt32 :: "int \<Rightarrow> int" where
  "toInt32 x = (x + 2147483648) mod 4294967296 - 2147483648"

definition hashStep :: "int \<Rightarrow> nat \<Rightarrow> int" where
  "hashStep hash char = toInt32 ((toInt32 (hash * 32) - hash) + int char)"

definition generateCacheKey :: "jsstring \<Rightarrow> jsstring" where
  "generateCacheKey t =
     js ''nlp_'' @ decimal (nat \<bar>foldl hashStep 0 (take (min (length t) 100) t)\<bar>)"

text \<open>\<open>checkCache\<close> and \<open>cacheResults\<close>; \<open>now\<close> is the reading of \<open>Date.now()\<close>.
  Both return the cache as they leave it.\<close>

definition checkCache ::
  "(jsstring \<times> 'r cache_entry) list \<Rightarrow> jsstring \<Rightarrow> int \<Rightarrow> 'r option \<times> (jsstring \<times> 'r cache_entry) list" where
  "checkCache cache key now =
     (case Map_get (=) cache key of
        None \<Rightarrow> (None, cache)
      | Some cached \<Rightarrow>
          if now - timestamp cached < cacheTimeout then (Some (data cached), cache)
          else (None, Map_delete (=) cache key))"

definition cacheResults ::
  "(jsstring \<times> 'r cache_entry) list \<Rightarrow> jsstring \<Rightarrow> 'r \<Rightarrow> int \<Rightarrow> (jsstring \<times> 'r cache_entry) list" where
  "cacheResults cache key results now =
     Map_set (=)
       (if length cache > 1000 then Map_delete (=) cache (fst (hd cache)) else cache)
       key \<lparr>data = results, timestamp = now\<rparr>"

definition updatePerformanceStats :: "performanceStats \<Rightarrow> real \<Rightarrow> performanceStats" where
  "updatePerformanceStats s processingTime =
     s\<lparr>totalProcessed := totalProcessed s + 1,
       averageTime := (averageTime s * real (totalProcessed s) + processingTime)
                        / real (totalProcessed s + 1)\<rparr>"

text \<open>
  \<open>extractEntities\<close>, one call run to its end. \<open>stage\<close> is the work between the cache
  read and the cache write, \<open>validateAndRankEntities(await performEntityExtraction(...))\<close>
  on the sanitized text: its result, or the message of the error it throws. \<open>tRead\<close>
  and \<open>tWrite\<close> are the readings of \<open>Date.now()\<close> in \<open>checkCache\<close> and in
  \<open>cacheResults\<close>, \<open>elapsed\<close> the measured processing time.
\<close>

definition emptyExtraction :: "jsstring option \<Rightarrow> extraction" where
  "emptyExtraction msg = \<lparr>entities = [], overall = 0, error = msg\<rparr>"

definition extractEntities ::
  "(jsstring \<Rightarrow> jsstring + extraction) \<Rightarrow> processor \<Rightarrow> jsval \<Rightarrow> int \<Rightarrow> int \<Rightarrow> real
     \<Rightarrow> extraction \<times> processor" where
  "extractEntities stage p txt tRead tWrite elapsed =
     (case sanitizeInput txt of
        None \<Rightarrow> (emptyExtraction None, p)
      | Some sanitized \<Rightarrow>
          if sanitized = [] then (emptyExtraction None, p)
          else
            let cacheKey = generateCacheKey sanitized;
                (cached, cache1) = checkCache (entityCache p) cacheKey tRead
            in (case cached of
                  Some r \<Rightarrow>
                    (r, p\<lparr>entityCache := cache1,
                          stats := (stats p)\<lparr>cacheHits := cacheHits (stats p) + 1\<rparr>\<rparr>)
                | None \<Rightarrow>
                    (case stage sanitized of
                       Inl msg \<Rightarrow> (emptyExtraction (Some msg), p\<lparr>entityCache := cache1\<rparr>)
                     | Inr validated \<Rightarrow>
                         (validated,
                          p\<lparr>entityCache := cacheResults cache1 cacheKey validated tWrite,
                            stats := updatePerformanceStats (stats p) elapsed\<rparr>))))"

section \<open>Ranking (nlp-processor.js, nlp-processor-enhanced.js)\<close>

text \<open>
  \<open>Array.prototype.sort\<close> with a comparator is a stable sort: with a consistent
  comparator its result is the one of inserting each element before the first element
  it does not come after, the later elements first.
\<close>

fun insertBy :: "('a \<Rightarrow> 'a \<Rightarrow> real) \<Rightarrow> 'a \<Rightarrow> 'a list \<Rightarrow> 'a list" where
  "insertBy cmp x [] = [x]"
| "insertBy cmp x (y # ys) = (if cmp x y \<le> 0 then x # y # ys else y # insertBy cmp x ys)"

definition sortBy :: "('a \<Rightarrow> 'a \<Rightarrow> real) \<Rightarrow> 'a list \<Rightarrow> 'a list" where
  "sortBy cmp xs = foldr (insertBy cmp) xs []"

text \<open>The comparator of \<open>validateAndRankEntities\<close>.\<close>

definition compareBase :: "entity \<Rightarrow> entity \<Rightarrow> real" where
  "compareBase a b =
     (if confidence a \<noteq> confidence b then confidence b - confidence a
      else real_of_int (position a - position b))"

definition sortedEntities :: "entity list \<Rightarrow> entity list" where
  "sortedEntities es = sortBy compareBase es"

text \<open>The comparator of \<open>rankEnhancedEntities\<close>; \<open>typeOrder[t] || 0\<close> is
  \<open>typeOrder\<close>.\<close>

definition typeOrder :: "jsstring \<Rightarrow> int" where
  "typeOrder t =
     (if t = js ''ticker'' then 5
      else if t = js ''company'' then 4
      else if t = js ''company_intl'' then 3
      else if t = js ''company_abbrev'' then 2
      else if t = js ''company_context'' then 1
      else 0)"

definition hasKB :: "entity \<Rightarrow> bool" where
  "hasKB a = (case knowledgeBase a of None \<Rightarrow> False | Some s \<Rightarrow> s > 8/10)"

definition compareEnhanced :: "entity \<Rightarrow> entity \<Rightarrow> real" where
  "compareEnhanced a b =
     (if hasKB a \<and> \<not> hasKB b then -1
      else if \<not> hasKB a \<and> hasKB b then 1
      else if confidence a \<noteq> confidence b then confidence b - confidence a
      else if typeOrder (etype a) \<noteq> typeOrder (etype b)
        then real_of_int (typeOrder (etype b) - typeOrder (etype a))
      else real_of_int (position a - position b))"

definition rankEnhancedEntities :: "entity list \<Rightarrow> entity list" where
  "rankEnhancedEntities es = sortBy compareEnhanced es"

text \<open>The order of the specification: score descending, then the earlier position,
  then the type priority.\<close>

definition specRankOrder :: "entity \<Rightarrow> entity \<Rightarrow> bool" where
  "specRankOrder a b =
     (confidence a > confidence b
      \<or> (confidence a = confidence b \<and> position a < position b)
      \<or> (confidence a = confidence b \<and> position a = position b
           \<and> typeOrder (etype a) \<ge> typeOrder (etype b)))"

text \<open>The order of \<open>rankEnhancedEntities\<close>, criterion by criterion.\<close>

definition enhancedRankOrder :: "entity \<Rightarrow> entity \<Rightarrow> bool" where
  "enhancedRankOrder a b =
     ((hasKB a \<and> \<not> hasKB b)
      \<or> (hasKB a = hasKB b \<and> confidence a > confidence b)
      \<or> (hasKB a = hasKB b \<and> confidence a = confidence b
           \<and> typeOrder (etype a) > typeOrder (etype b))
      \<or> (hasKB a = hasKB b \<and> confidence a = confidence b
           \<and> typeOrder (etype a) = typeOrder (etype b) \<and> position a \<le> position b))"

definition baseRankOrder :: "entity \<Rightarrow> entity \<Rightarrow> bool" where
  "baseRankOrder a b =
     (confidence a > confidence b \<or> (confidence a = confidence b \<and> position a \<le> position b))"

text \<open>The cache holds its entries in the order of their insertion; with a clock that does
  not run backwards this is the order of their timestamps.\<close>

definition cacheOrdered :: "(jsstring \<times> 'r cache_entry) list \<Rightarrow> bool" where
  "cacheOrdered cache =
     (distinct (map fst cache) \<and> sorted (map (\<lambda>kv. timestamp (snd kv)) cache))"

text \<open>Two sanitized texts of 101 code units that differ in the last one only.\<close>

definition longTextA :: jsstring where
  "longTextA = replicate 100 97 @ [120]"

definition longTextB :: jsstring where
  "longTextB = replicate 100 97 @ [121]"

text \<open>A cache of one entry written at time 0, and a cache of 1001 entries written at the
  times 0 to 1000.\<close>

definition oneEntryCache :: "(jsstring \<times> nat cache_entry) list" where
  "oneEntryCache = [(js ''nlp_1'', \<lparr>data = 7, timestamp = 0\<rparr>)]"

definition fullCache :: "(jsstring \<times> nat cache_entry) list" where
  "fullCache = map (\<lambda>i. (replicate i 97, \<lparr>data = i, timestamp = int i\<rparr>)) [0..<1001]"

text \<open>Two entities: a ticker with the confidence of its pattern and no knowledge-base
  match, and a later context mention with a knowledge-base match and the confidence of
  its pattern raised by 0.1.\<close>

definition entityA :: entity where
  "entityA = \<lparr>etext = js ''ACME'', normalized = js ''ACME'', etype = js ''ticker'',
               confidence = 95/100, pattern = js ''ticker_symbol'', position = 0,
               knowledgeBase = None\<rparr>"

definition entityB :: entity where
  "entityB = \<lparr>etext = js ''Tesla'', normalized = js ''Tesla'', etype = js ''company_context'',
               confidence = 85/100, pattern = js ''context_indicators'', position = 20,
               knowledgeBase = Some (9/10)\<rparr>"

section \<open>Fuzzy matcher (fuzzy-matcher.js)\<close>

text \<open>
  \<open>levenshteinDistance\<close> fills the table \<open>dp\<close> row by row; \<open>levenshteinCell s t i j\<close>
  is the value stored in \<open>dp[i][j]\<close>, which depends on the three cells filled
  before it.
\<close>

fun levenshteinCell :: "jsstring \<Rightarrow> jsstring \<Rightarrow> nat \<Rightarrow> nat \<Rightarrow> nat" where
  "levenshteinCell s t 0 j = j"
| "levenshteinCell s t (Suc i) 0 = Suc i"
| "levenshteinCell s t (Suc i) (Suc j) =
     (if s ! i = t ! j then levenshteinCell s t i j
      else 1 + min (levenshteinCell s t i (Suc j))
                 (min (levenshteinCell s t (Suc i) j) (levenshteinCell s t i j)))"

definition levenshteinDistance :: "jsstring \<Rightarrow> jsstring \<Rightarrow> nat" where
  "levenshteinDistance str1 str2 = levenshteinCell str1 str2 (length str1) (length str2)"

text \<open>\<open>ratio\<close>: the empty string is falsy.\<close>

definition ratio :: "jsstring \<Rightarrow> jsstring \<Rightarrow> real" where
  "ratio str1 str2 =
     (if str1 = [] \<or> str2 = [] then 0
      else if str1 = str2 then 1
      else
        let s1 = trim (toLowerCase str1); s2 = trim (toLowerCase str2) in
        if s1 = s2 then 1
        else
          let maxLen = max (length s1) (length s2) in
          if maxLen = 0 then 1
          else 1 - real (levenshteinDistance s1 s2) / real maxLen)"

text \<open>\<open>partialRatio\<close>: the loop over the windows of the longer string, \<open>bestRatio\<close>
  as the accumulator.\<close>

definition partialRatio :: "jsstring \<Rightarrow> jsstring \<Rightarrow> real" where
  "partialRatio str1 str2 =
     (if str1 = [] \<or> str2 = [] then 0
      else
        let s1 = trim (toLowerCase str1); s2 = trim (toLowerCase str2) in
        if s1 = s2 then 1
        else
          let shorter = (if length s1 \<le> length s2 then s1 else s2);
              longer = (if length s1 \<le> length s2 then s2 else s1)
          in foldl (\<lambda>bestRatio i.
                      max bestRatio (ratio shorter (take (length shorter) (drop i longer))))
               0 [0 ..< length longer - length shorter + 1])"

text \<open>\<open>tokenize\<close>: lower case, every character that is neither a word character nor
  white space replaced by a space, split at white space, empty tokens removed.\<close>

definition tokenize :: "jsstring \<Rightarrow> jsstring list" where
  "tokenize str =
     filter (\<lambda>token. length token > 0)
       (splitSpaces (map (\<lambda>c. if \<not> isWordChar c \<and> \<not> isSpace c then 32 else c)
          (toLowerCase str)))"

text \<open>The default order of \<open>Array.prototype.sort\<close> on strings: code unit by code unit.\<close>

fun stringLess :: "jsstring \<Rightarrow> jsstring \<Rightarrow> bool" where
  "stringLess [] [] = False"
| "stringLess [] (y # ys) = True"
| "stringLess (x # xs) [] = False"
| "stringLess (x # xs) (y # ys) = (x < y \<or> (x = y \<and> stringLess xs ys))"

definition compareStrings :: "jsstring \<Rightarrow> jsstring \<Rightarrow> real" where
  "compareStrings a b = (if stringLess a b then -1 else if stringLess b a then 1 else 0)"

fun joinWith :: "jsstring \<Rightarrow> jsstring list \<Rightarrow> jsstring" where
  "joinWith sep [] = []"
| "joinWith sep [x] = x"
| "joinWith sep (x # y # ys) = x @ sep @ joinWith sep (y # ys)"

definition tokenSortRatio :: "jsstring \<Rightarrow> jsstring \<Rightarrow> real" where
  "tokenSortRatio str1 str2 =
     (if str1 = [] \<or> str2 = [] then 0
      else ratio (joinWith [32] (sortBy compareStrings (tokenize str1)))
                 (joinWith [32] (sortBy compareStrings (tokenize str2))))"

definition stopWords :: "jsstring list" where
  "stopWords =
     [js ''the'', js ''and'', js ''of'', js ''in'', js ''for'', js ''a'', js ''an'', js ''&'',
      js ''company'', js ''corporation'', js ''incorporated'', js ''limited'',
      js ''corp'', js ''inc'', js ''ltd'', js ''llc'', js ''co'']"

definition tokenSetRatio :: "jsstring \<Rightarrow> jsstring \<Rightarrow> real" where
  "tokenSetRatio str1 str2 =
     (if str1 = [] \<or> str2 = [] then 0
      else
        let tokens1 = Set_of (=) (tokenize str1);
            tokens2 = Set_of (=) (tokenize str2);
            filtered1 = filter (\<lambda>t. t \<notin> set stopWords) tokens1;
            filtered2 = filter (\<lambda>t. t \<notin> set stopWords) tokens2;
            set1 = (if length filtered1 > 0 then filtered1 else tokens1);
            set2 = (if length filtered2 > 0 then filtered2 else tokens2);
            intersection = filter (\<lambda>x. x \<in> set set2) set1;
            union = Set_of (=) (set1 @ set2)
        in if length union = 0 then 1
           else real (length intersection) / real (length union))"

text \<open>
  \<open>companyNameRatio\<close>: \<open>w\<close> is \<open>{...defaultWeights, ...weights}\<close>; the loop adds a
  weight when there is a score of its name. The call with two arguments has no weights
  of its own.
\<close>

definition defaultWeights :: "(jsstring \<times> real) list" where
  "defaultWeights =
     [(js ''ratio'', 2/10), (js ''partial'', 2/10), (js ''tokenSort'', 3/10),
      (js ''tokenSet'', 3/10)]"

definition companyNameRatioWith ::
  "jsstring \<Rightarrow> jsstring \<Rightarrow> (jsstring \<times> real) list \<Rightarrow> real" where
  "companyNameRatioWith str1 str2 weights =
     (let w = foldl (\<lambda>m (k, v). Map_set (=) m k v) defaultWeights weights;
          scores = [(js ''ratio'', ratio str1 str2), (js ''partial'', partialRatio str1 str2),
                    (js ''tokenSort'', tokenSortRatio str1 str2),
                    (js ''tokenSet'', tokenSetRatio str1 str2)];
          (weightedSum, totalWeight) =
            foldl (\<lambda>(weightedSum, totalWeight) (key, weight).
                     case Map_get (=) scores key of
                       None \<Rightarrow> (weightedSum, totalWeight)
                     | Some s \<Rightarrow> (weightedSum + s * weight, totalWeight + weight))
              (0, 0) w
      in if totalWeight > 0 then weightedSum / totalWeight else 0)"

definition companyNameRatio :: "jsstring \<Rightarrow> jsstring \<Rightarrow> real" where
  "companyNameRatio str1 str2 = companyNameRatioWith str1 str2 []"

definition abbreviationBonus :: real where
  "abbreviationBonus = 1/10"

definition abbreviationPairs :: "(jsstring \<times> jsstring) list" where
  "abbreviationPairs =
     [(js ''intl'', js ''international''), (js ''corp'', js ''corporation''),
      (js ''inc'', js ''incorporated''), (js ''ltd'', js ''limited''),
      (js ''co'', js ''company''), (js ''assoc'', js ''associates''),
      (js ''mgmt'', js ''management''), (js ''svcs'', js ''services''),
      (js ''tech'', js ''technologies''), (js ''pharm'', js ''pharmaceutical''),
      (js ''mfg'', js ''manufacturing'')]"

definition handleSpecialCases :: "jsstring \<Rightarrow> jsstring \<Rightarrow> real" where
  "handleSpecialCases str1 str2 =
     (let s1 = trim (toLowerCase str1); s2 = trim (toLowerCase str2) in
      if list_ex (\<lambda>(abbr, full).
            (str_includes s1 abbr \<and> str_includes s2 full)
            \<or> (str_includes s1 full \<and> str_includes s2 abbr)) abbreviationPairs
      then abbreviationBonus else 0)"

definition enhancedCompanyRatio :: "jsstring \<Rightarrow> jsstring \<Rightarrow> real" where
  "enhancedCompanyRatio str1 str2 =
     (let baseScore = companyNameRatio str1 str2;
          specialBonus = handleSpecialCases str1 str2
      in min 1 (baseScore + specialBonus))"

section \<open>Confidence scorer (ConfidenceScorer)\<close>

text \<open>
  The factors object and the context of \<open>calculateScore\<close>. A field that may be missing
  is an option; \<open>x || 0\<close> on a number is \<open>orZero\<close>.
\<close>

record patternMatchFactor =
  pm_confidence :: "real option"
  pm_type :: "jsstring option"
  pm_entity :: "jsstring option"

record clue =
  clue_type :: jsstring
  clue_value :: jsstring
  clue_confidence :: real

record domContextFactor =
  dc_confidence :: "real option"
  dc_position :: "jsstring list option"
  dc_contextClues :: "clue list option"

record nlpConfidenceFactor =
  nc_confidence :: "real option"
  nc_entities :: "entity list option"

record entityFactor =
  ef_text :: "jsstring option"
  ef_normalized :: "jsstring option"
  ef_type :: "jsstring option"

record factors =
  patternMatch :: "patternMatchFactor option"
  domContext :: "domContextFactor option"
  nlpConfidence :: "nlpConfidenceFactor option"
  entityOf :: "entityFactor option"

record scoringContext =
  industry :: "jsstring option"

definition orZero :: "real option \<Rightarrow> real" where
  "orZero x = (case x of None \<Rightarrow> 0 | Some v \<Rightarrow> v)"

definition orEmpty :: "jsstring option \<Rightarrow> jsstring" where
  "orEmpty x = (case x of None \<Rightarrow> [] | Some v \<Rightarrow> v)"

text \<open>\<open>validateFactors\<close>: a missing factor becomes the empty object, a missing or zero
  confidence 0, a missing or empty text the empty string, a missing or empty normalized
  text the text.\<close>

record validatedFactors =
  v_patternMatch :: patternMatchFactor
  v_domContext :: domContextFactor
  v_nlpConfidence :: nlpConfidenceFactor
  v_entity :: entityFactor

definition validateFactors :: "factors \<Rightarrow> validatedFactors" where
  "validateFactors f =
     (let pm = (case patternMatch f of
                  None \<Rightarrow> \<lparr>pm_confidence = None, pm_type = None, pm_entity = None\<rparr>
                | Some x \<Rightarrow> x);
          dc = (case domContext f of
                  None \<Rightarrow> \<lparr>dc_confidence = None, dc_position = None, dc_contextClues = None\<rparr>
                | Some x \<Rightarrow> x);
          nc = (case nlpConfidence f of
                  None \<Rightarrow> \<lparr>nc_confidence = None, nc_entities = None\<rparr>
                | Some x \<Rightarrow> x);
          en = (case entityOf f of
                  None \<Rightarrow> \<lparr>ef_text = None, ef_normalized = None, ef_type = None\<rparr>
                | Some x \<Rightarrow> x);
          txt = orEmpty (ef_text en)
      in \<lparr>v_patternMatch = pm\<lparr>pm_confidence := Some (orZero (pm_confidence pm))\<rparr>,
          v_domContext = dc\<lparr>dc_confidence := Some (orZero (dc_confidence dc))\<rparr>,
          v_nlpConfidence = nc\<lparr>nc_confidence := Some (orZero (nc_confidence nc))\<rparr>,
          v_entity = en\<lparr>ef_text := Some txt,
            ef_normalized := Some (if orEmpty (ef_normalized en) \<noteq> []
                                   then orEmpty (ef_normalized en) else txt)\<rparr>\<rparr>)"

definition scorePatternMatch :: "patternMatchFactor \<Rightarrow> real" where
  "scorePatternMatch pm =
     (let score0 = orZero (pm_confidence pm);
          score1 = (if pm_type pm = Some (js ''ticker'') then score0 * (12/10)
                    else if pm_type pm = Some (js ''company_formal'') then score0 * (11/10)
                    else score0);
          score2 = (if pm_type pm = Some (js ''company_context'') then score1 * (8/10)
                    else score1)
      in min score2 1)"

text \<open>\<open>position\<close> is the array of position tags; \<open>position.includes\<close> looks for an
  element. \<open>clue.type.includes\<close> looks for a part of the string.\<close>

definition scoreDOMContext :: "domContextFactor \<Rightarrow> real" where
  "scoreDOMContext dc =
     (let score0 = orZero (dc_confidence dc);
          score1 = (case dc_position dc of
                      None \<Rightarrow> score0
                    | Some pos \<Rightarrow>
                        if js ''h1'' \<in> set pos then score0 * (13/10)
                        else if js ''h2'' \<in> set pos then score0 * (12/10)
                        else if js ''firstParagraph'' \<in> set pos then score0 * (115/100)
                        else score0);
          score2 = (case dc_contextClues dc of
                      None \<Rightarrow> score1
                    | Some clues \<Rightarrow>
                        if list_ex (\<lambda>c. clue_type c = js ''dataAttribute''
                                         \<or> str_includes (clue_type c) (js ''ticker'')) clues
                        then score1 * (125/100) else score1)
      in min score2 1)"

definition scoreNLPConfidence :: "nlpConfidenceFactor \<Rightarrow> real" where
  "scoreNLPConfidence nc =
     (let score0 = orZero (nc_confidence nc) in
      case nc_entities nc of
        None \<Rightarrow> min score0 1
      | Some [] \<Rightarrow> min score0 1
      | Some (topEntity # others) \<Rightarrow>
          let score1 = (if confidence topEntity > 9/10 then score0 * (115/100) else score0);
              supportingEntities = filter (\<lambda>e. confidence e > 7/10) others;
              score2 = (if length supportingEntities > 0 then score1 * (11/10) else score1)
          in min score2 1)"

text \<open>The known entities: the companies of \<open>initializeKnownEntities\<close>, indexed by the
  lower case of the name, of each alias, of the ticker and of the ticker after a dollar
  sign, in this order; a later entry of the same key replaces the earlier one.\<close>

record knownCompany =
  kc_name :: jsstring
  kc_aliases :: "jsstring list"
  kc_ticker :: "jsstring option"
  kc_sector :: jsstring

definition knownCompanies :: "knownCompany list" where
  "knownCompanies =
     [\<lparr>kc_name = js ''Apple Inc.'', kc_aliases = [js ''Apple'', js ''AAPL''],
        kc_ticker = Some (js ''AAPL''), kc_sector = js ''technology''\<rparr>,
      \<lparr>kc_name = js ''Microsoft Corporation'', kc_aliases = [js ''Microsoft'', js ''MSFT''],
        kc_ticker = Some (js ''MSFT''), kc_sector = js ''technology''\<rparr>,
      \<lparr>kc_name = js ''Alphabet Inc.'',
        kc_aliases = [js ''Google'', js ''Alphabet'', js ''GOOGL'', js ''GOOG''],
        kc_ticker = Some (js ''GOOGL''), kc_sector = js ''technology''\<rparr>,
      \<lparr>kc_name = js ''Amazon.com Inc.'', kc_aliases = [js ''Amazon'', js ''AMZN''],
        kc_ticker = Some (js ''AMZN''), kc_sector = js ''technology''\<rparr>,
      \<lparr>kc_name = js ''Meta Platforms Inc.'',
        kc_aliases = [js ''Facebook'', js ''Meta'', js ''FB'', js ''META''],
        kc_ticker = Some (js ''META''), kc_sector = js ''technology''\<rparr>,
      \<lparr>kc_name = js ''JPMorgan Chase & Co.'',
        kc_aliases = [js ''JPMorgan'', js ''Chase'', js ''JPM''],
        kc_ticker = Some (js ''JPM''), kc_sector = js ''finance''\<rparr>,
      \<lparr>kc_name = js ''Bank of America Corporation'',
        kc_aliases = [js ''Bank of America'', js ''BofA'', js ''BAC''],
        kc_ticker = Some (js ''BAC''), kc_sector = js ''finance''\<rparr>,
      \<lparr>kc_name = js ''Wells Fargo & Company'', kc_aliases = [js ''Wells Fargo'', js ''WFC''],
        kc_ticker = Some (js ''WFC''), kc_sector = js ''finance''\<rparr>,
      \<lparr>kc_name = js ''Goldman Sachs Group Inc.'',
        kc_aliases = [js ''Goldman Sachs'', js ''Goldman'', js ''GS''],
        kc_ticker = Some (js ''GS''), kc_sector = js ''finance''\<rparr>,
      \<lparr>kc_name = js ''Morgan Stanley'', kc_aliases = [js ''MS''],
        kc_ticker = Some (js ''MS''), kc_sector = js ''finance''\<rparr>,
      \<lparr>kc_name = js ''The Vanguard Group'', kc_aliases = [js ''Vanguard''],
        kc_ticker = None, kc_sector = js ''asset_management''\<rparr>,
      \<lparr>kc_name = js ''BlackRock Inc.'', kc_aliases = [js ''BlackRock'', js ''BLK''],
        kc_ticker = Some (js ''BLK''), kc_sector = js ''asset_management''\<rparr>,
      \<lparr>kc_name = js ''State Street Corporation'', kc_aliases = [js ''State Street'', js ''STT''],
        kc_ticker = Some (js ''STT''), kc_sector = js ''asset_management''\<rparr>,
      \<lparr>kc_name = js ''Fidelity Investments'', kc_aliases = [js ''Fidelity''],
        kc_ticker = None, kc_sector = js ''asset_management''\<rparr>]"

definition indexKnownCompany ::
  "(jsstring \<times> knownCompany) list \<Rightarrow> knownCompany \<Rightarrow> (jsstring \<times> knownCompany) list" where
  "indexKnownCompany m company =
     (let m1 = Map_set (=) m (toLowerCase (kc_name company)) company;
          m2 = foldl (\<lambda>m alias. Map_set (=) m (toLowerCase alias) company) m1 (kc_aliases company)
      in case kc_ticker company of
           None \<Rightarrow> m2
         | Some ticker \<Rightarrow>
             if ticker = [] then m2
             else Map_set (=) (Map_set (=) m2 (toLowerCase ticker) company)
                    (toLowerCase (36 # ticker)) company)"

definition knownEntities :: "(jsstring \<times> knownCompany) list" where
  "knownEntities = foldl indexKnownCompany [] knownCompanies"

text \<open>\<open>calculateSimilarity\<close>: the Jaccard similarity of the two sets of words. The union
  is never empty, since \<open>split\<close> returns at least one piece.\<close>

definition calculateSimilarity :: "jsstring \<Rightarrow> jsstring \<Rightarrow> real" where
  "calculateSimilarity str1 str2 =
     (let words1 = Set_of (=) (splitSpaces (toLowerCase str1));
          words2 = Set_of (=) (splitSpaces (toLowerCase str2));
          intersection = filter (\<lambda>x. x \<in> set words2) words1;
          union = Set_of (=) (words1 @ words2)
      in real (length intersection) / real (length union))"

definition fuzzyMatchKnownEntity :: "jsstring \<Rightarrow> real" where
  "fuzzyMatchKnownEntity entityText =
     foldl (\<lambda>bestScore (key, knownEntity).
              let similarity = calculateSimilarity entityText key in
              if similarity > 8/10 then max bestScore (similarity * (8/10)) else bestScore)
       0 knownEntities"

definition sectorMap :: "(jsstring \<times> jsstring list) list" where
  "sectorMap =
     [(js ''technology'', [js ''tech'', js ''software'', js ''internet'', js ''digital'']),
      (js ''finance'', [js ''financial'', js ''banking'', js ''investment'']),
      (js ''asset_management'', [js ''investment'', js ''fund'', js ''capital''])]"

definition checkSectorConsistency :: "jsstring \<Rightarrow> jsstring \<Rightarrow> bool" where
  "checkSectorConsistency detectedIndustry knownSector =
     (let sectorKeywords = (case map_of sectorMap knownSector of None \<Rightarrow> [] | Some ks \<Rightarrow> ks)
      in list_ex (\<lambda>keyword. str_includes (toLowerCase detectedIndustry) keyword) sectorKeywords)"

text \<open>\<open>scoreCrossReference\<close>, on the validated entity (its text and normalized text are
  strings).\<close>

definition scoreCrossReference :: "entityFactor \<Rightarrow> scoringContext \<Rightarrow> real" where
  "scoreCrossReference en ctx =
     (let normalizedEntity =
            (if toLowerCase (orEmpty (ef_normalized en)) \<noteq> []
             then toLowerCase (orEmpty (ef_normalized en))
             else toLowerCase (orEmpty (ef_text en)))
      in case Map_get (=) knownEntities normalizedEntity of
           None \<Rightarrow> fuzzyMatchKnownEntity normalizedEntity
         | Some knownEntity \<Rightarrow>
             let score0 = (if ef_type en = Some (js ''ticker'')
                              \<and> kc_ticker knownEntity = Some (toUpperCase (orEmpty (ef_text en)))
                           then 1 else 9/10);
                 score1 = (case industry ctx of
                             None \<Rightarrow> score0
                           | Some ind \<Rightarrow>
                               if ind \<noteq> [] \<and> kc_sector knownEntity \<noteq> []
                               then score0 * (if checkSectorConsistency ind (kc_sector knownEntity)
                                              then 11/10 else 9/10)
                               else score0)
             in min score1 1)"

text \<open>\<open>scoreContextConsistency\<close>: the checks that apply, in order, and their average.\<close>

definition scoreContextConsistency :: "validatedFactors \<Rightarrow> scoringContext \<Rightarrow> real" where
  "scoreContextConsistency f ctx =
     (let pm = v_patternMatch f; dc = v_domContext f;
          nc = v_nlpConfidence f; en = v_entity f;
          check1 =
            (case (pm_entity pm, nc_entities nc) of
               (Some pe, Some (e0 # es)) \<Rightarrow>
                 if pe = [] then []
                 else
                   let patternEntity = toLowerCase pe;
                       nlpEntity = toLowerCase (normalized e0)
                   in if patternEntity = nlpEntity then [1]
                      else if calculateSimilarity patternEntity nlpEntity > 7/10 then [8/10]
                      else [5/10]
             | _ \<Rightarrow> []);
          check2 =
            (case (dc_contextClues dc, ef_type en) of
               (Some clues, Some ty) \<Rightarrow>
                 if ty = [] then []
                 else
                   let hasRelevantClues =
                         list_ex (\<lambda>c. if ty = js ''ticker''
                                       then str_includes (clue_type c) (js ''ticker'')
                                            \<or> str_includes (clue_type c) (js ''symbol'')
                                       else str_includes (clue_type c) (js ''company'')) clues
                   in [if hasRelevantClues then 1 else 6/10]
             | _ \<Rightarrow> []);
          consistencyChecks = check1 @ check2
      in if length consistencyChecks = 0 then 7/10
         else foldl (+) 0 consistencyChecks / real (length consistencyChecks))"

text \<open>The weights and thresholds of the constructor. \<open>this.weights[factor] || 0\<close> is 0
  for a factor without a weight.\<close>

definition scorerWeights :: "(jsstring \<times> real) list" where
  "scorerWeights =
     [(js ''patternMatch'', 25/100), (js ''domContext'', 20/100), (js ''nlpConfidence'', 25/100),
      (js ''crossReference'', 15/100), (js ''contextConsistency'', 15/100)]"

definition calculateWeightedScore :: "(jsstring \<times> real) list \<Rightarrow> real" where
  "calculateWeightedScore scores =
     (let (weightedSum, totalWeight) =
            foldl (\<lambda>(weightedSum, totalWeight) (factor, score).
                     let weight = (case Map_get (=) scorerWeights factor of
                                     None \<Rightarrow> 0 | Some w \<Rightarrow> w)
                     in (weightedSum + score * weight, totalWeight + weight))
              (0, 0) scores
      in if totalWeight > 0 then weightedSum / totalWeight else 0)"

record thresholds =
  high :: real
  medium :: real
  low :: real

definition defaultThresholds :: thresholds where
  "defaultThresholds = \<lparr>high = 85/100, medium = 65/100, low = 45/100\<rparr>"

datatype level = High | Medium | Low | Reject | ErrorLevel

definition determineConfidenceLevel :: "thresholds \<Rightarrow> real \<Rightarrow> level" where
  "determineConfidenceLevel th score =
     (if score \<ge> high th then High
      else if score \<ge> medium th then Medium
      else if score \<ge> low th then Low
      else Reject)"

text \<open>
  \<open>calculateScore\<close>. A factors argument that is null or undefined makes
  \<open>validateFactors\<close> throw, and the catch block returns the error result. The
  recommendation text and the statistics counters are not part of the model.
\<close>

record scoring =
  score :: real
  level :: level
  breakdown :: "(jsstring \<times> real) list"

definition calculateScore :: "thresholds \<Rightarrow> factors option \<Rightarrow> scoringContext \<Rightarrow> scoring" where
  "calculateScore th factors ctx =
     (case factors of
        None \<Rightarrow> \<lparr>score = 0, level = ErrorLevel, breakdown = []\<rparr>
      | Some f \<Rightarrow>
          let validatedFactors = validateFactors f;
              scores =
                [(js ''patternMatch'', scorePatternMatch (v_patternMatch validatedFactors)),
                 (js ''domContext'', scoreDOMContext (v_domContext validatedFactors)),
                 (js ''nlpConfidence'', scoreNLPConfidence (v_nlpConfidence validatedFactors)),
                 (js ''crossReference'', scoreCrossReference (v_entity validatedFactors) ctx),
                 (js ''contextConsistency'', scoreContextConsistency validatedFactors ctx)];
              finalScore = calculateWeightedScore scores
          in \<lparr>score = finalScore, level = determineConfidenceLevel th finalScore,
               breakdown = scores\<rparr>)"

text \<open>The levels from the strictest verdict up.\<close>

fun levelRank :: "level \<Rightarrow> nat" where
  "levelRank ErrorLevel = 0"
| "levelRank Reject = 0"
| "levelRank Low = 1"
| "levelRank Medium = 2"
| "levelRank High = 3"

text \<open>Factors whose pattern-match confidence is negative.\<close>

definition negativeFactors :: factors where
  "negativeFactors =
     \<lparr>patternMatch = Some \<lparr>pm_confidence = Some (-10), pm_type = None, pm_entity = None\<rparr>,
      domContext = None, nlpConfidence = None, entityOf = None\<rparr>"

text \<open>Factors of a ticker found in a headline.\<close>

definition tickerFactors :: factors where
  "tickerFactors =
     \<lparr>patternMatch = Some \<lparr>pm_confidence = Some (95/100), pm_type = Some (js ''ticker''),
                            pm_entity = None\<rparr>,
      domContext = Some \<lparr>dc_confidence = Some (9/10), dc_position = Some [js ''h1''],
                          dc_contextClues = None\<rparr>,
      nlpConfidence = Some \<lparr>nc_confidence = Some (95/100), nc_entities = None\<rparr>,
      entityOf = None\<rparr>"

text \<open>The three confidences that the caller supplies, after \<open>|| 0\<close>.\<close>

definition patternConfidence :: "factors \<Rightarrow> real" where
  "patternConfidence f =
     (case patternMatch f of None \<Rightarrow> 0 | Some pm \<Rightarrow> orZero (pm_confidence pm))"

definition domConfidence :: "factors \<Rightarrow> real" where
  "domConfidence f =
     (case domContext f of None \<Rightarrow> 0 | Some dc \<Rightarrow> orZero (dc_confidence dc))"

definition nlpConfidenceOf :: "factors \<Rightarrow> real" where
  "nlpConfidenceOf f =
     (case nlpConfidence f of None \<Rightarrow> 0 | Some nc \<Rightarrow> orZero (nc_confidence nc))"

section \<open>Company name normalizer (CompanyNormalizer)\<close>

text \<open>The suffix lists of the constructor, by region.\<close>

definition suffixesUS :: "jsstring list" where
  "suffixesUS =
     [js ''Inc'', js ''Inc.'', js ''Incorporated'', js ''Corp'', js ''Corp.'',
      js ''Corporation'', js ''Co'', js ''Co.'', js ''Company'', js ''LLC'', js ''L.L.C.'',
      js ''Limited Liability Company'', js ''LP'', js ''L.P.'', js ''Limited Partnership'',
      js ''LLP'', js ''L.L.P.'', js ''Limited Liability Partnership'', js ''Ltd'',
      js ''Ltd.'', js ''Limited'', js ''PC'', js ''P.C.'', js ''Professional Corporation'',
      js ''PA'', js ''P.A.'', js ''Professional Association'', js ''PLLC'',
      js ''P.L.L.C.'', js ''Professional Limited Liability Company'']"

definition suffixesUK :: "jsstring list" where
  "suffixesUK =
     [js ''Ltd'', js ''Ltd.'', js ''Limited'', js ''PLC'', js ''P.L.C.'',
      js ''Public Limited Company'', js ''LLP'', js ''L.L.P.'',
      js ''Limited Liability Partnership'']"

definition suffixesEurope :: "jsstring list" where
  "suffixesEurope =
     [js ''AG'', js ''A.G.'', js ''Aktiengesellschaft'', js ''GmbH'', js ''G.m.b.H.'',
      js ''Gesellschaft mit beschr'' @ [228] @ js ''nkter Haftung'', js ''SA'',
      js ''S.A.'', js ''Soci'' @ [233] @ js ''t'' @ [233] @ js '' Anonyme'', js ''SARL'',
      js ''S.A.R.L.'',
      js ''Soci'' @ [233] @ js ''t'' @ [233] @ js '' '' @ [224] @ js '' responsabilit'' @ [233] @ js '' limit'' @ [233] @ js ''e'',
      js ''BV'', js ''B.V.'', js ''Besloten Vennootschap'', js ''NV'', js ''N.V.'',
      js ''Naamloze Vennootschap'', js ''SpA'', js ''S.p.A.'',
      js ''Societ'' @ [224] @ js '' per Azioni'', js ''AB'', js ''A.B.'',
      js ''Aktiebolag'', js ''AS'', js ''A.S.'', js ''Aksjeselskap'', js ''Oy'', js ''Oyj'']"

definition suffixesAsia :: "jsstring list" where
  "suffixesAsia =
     [js ''KK'', js ''K.K.'', js ''Kabushiki Kaisha'', [26666, 24335, 20250, 31038],
      js ''YK'', js ''Y.K.'', js ''Yugen Kaisha'', [26377, 38480, 20250, 31038],
      js ''Pte Ltd'', js ''Pte. Ltd.'', js ''Private Limited'', js ''Sdn Bhd'',
      js ''Sdn. Bhd.'', js ''Sendirian Berhad'', js ''Co., Ltd.'',
      [26377, 38480, 20844, 21496], [32929, 20221, 26377, 38480, 20844, 21496]]"

definition suffixesOther :: "jsstring list" where
  "suffixesOther =
     [js ''Group'', js ''Groups'', js ''Holdings'', js ''Holding'', js ''International'',
      js ''Intl'', js ''Intl.'', js ''Global'', js ''Worldwide'', js ''Partners'',
      js ''Associates'', js ''Enterprises'', js ''Ventures'', js ''Technologies'',
      js ''Tech'', js ''Solutions'', js ''Services'', js ''Systems'', js ''Industries'']"

text \<open>
  \<open>buildPatterns\<close>: all suffixes, sorted by length with the longest first (the sort is
  stable), escaped and joined into the pattern \<open>\b(s1|s2|...)\b\<close> with the flags
  \<open>g\<close> and \<open>i\<close>. The only special character in the suffixes is the dot, so
  every alternative matches its suffix literally.
\<close>

definition allSuffixes :: "jsstring list" where
  "allSuffixes = suffixesUS @ suffixesUK @ suffixesEurope @ suffixesAsia @ suffixesOther"

definition sortedSuffixes :: "jsstring list" where
  "sortedSuffixes = sortBy (\<lambda>a b. real (length b) - real (length a)) allSuffixes"

text \<open>
  Matching without regard to case: the engine compares the canonical forms of the two
  code units. The canonical form is the upper case when that is one code unit, except
  that a code unit outside ASCII never becomes an ASCII one.
\<close>

definition canonicalize :: "nat \<Rightarrow> nat" where
  "canonicalize c =
     (case upperUnit c of
        [u] \<Rightarrow> if c \<ge> 128 \<and> u < 128 then c else u
      | _ \<Rightarrow> c)"

fun matchesLiteral :: "jsstring \<Rightarrow> jsstring \<Rightarrow> bool" where
  "matchesLiteral s [] = True"
| "matchesLiteral [] (p # ps) = False"
| "matchesLiteral (c # cs) (p # ps) =
     (canonicalize c = canonicalize p \<and> matchesLiteral cs ps)"

text \<open>\<open>\b\<close> between two neighbours, either of which may be missing at an end of the
  text: exactly one of them is a word character.\<close>

definition isWord :: "nat option \<Rightarrow> bool" where
  "isWord c = (case c of None \<Rightarrow> False | Some u \<Rightarrow> isWordChar u)"

definition wordBoundary :: "nat option \<Rightarrow> nat option \<Rightarrow> bool" where
  "wordBoundary before after = (isWord before \<noteq> isWord after)"

definition charAt :: "jsstring \<Rightarrow> nat \<Rightarrow> nat option" where
  "charAt s i = (if i < length s then Some (s ! i) else None)"

text \<open>
  An attempt to match the pattern at the start of \<open>s\<close>, where \<open>before\<close> is the code
  unit in front of it: the length of the match. The alternatives are tried in their
  order, and an alternative succeeds when its text is there and a word boundary
  follows it.
\<close>

definition suffixMatchAt :: "nat option \<Rightarrow> jsstring \<Rightarrow> nat option" where
  "suffixMatchAt before s =
     (if wordBoundary before (charAt s 0) then
        (case find (\<lambda>alt. matchesLiteral s alt
                          \<and> wordBoundary (charAt s (length alt - 1)) (charAt s (length alt)))
                sortedSuffixes of
           None \<Rightarrow> None
         | Some alt \<Rightarrow> Some (length alt))
      else None)"

text \<open>
  \<open>replace(suffixPattern, '')\<close>: the text is scanned from the left; a match is dropped
  and the scan goes on behind it, otherwise the code unit is kept. No alternative is
  empty, so a match of length \<open>n\<close> at \<open>c # cs\<close> leaves \<open>drop (n - 1) cs\<close>.
\<close>

function removeSuffixes :: "nat option \<Rightarrow> jsstring \<Rightarrow> jsstring" where
  "removeSuffixes before [] = []"
| "removeSuffixes before (c # cs) =
     (case suffixMatchAt before (c # cs) of
        None \<Rightarrow> c # removeSuffixes (Some c) cs
      | Some n \<Rightarrow> removeSuffixes (charAt (c # cs) (n - 1)) (drop (n - 1) cs))"
  by pat_completeness auto
termination
  by (relation "measure (\<lambda>(before, s). length s)") auto

definition abbreviations :: "(jsstring \<times> jsstring) list" where
  "abbreviations =
     [(js ''IBM'', js ''International Business Machines''),
      (js ''GM'', js ''General Motors''),
      (js ''GE'', js ''General Electric''),
      (js ''P&G'', js ''Procter & Gamble''),
      (js ''J&J'', js ''Johnson & Johnson''),
      (js ''AT&T'', js ''American Telephone & Telegraph''),
      (js ''UPS'', js ''United Parcel Service''),
      (js ''FedEx'', js ''Federal Express''),
      (js ''BMW'', js ''Bayerische Motoren Werke''),
      (js ''HSBC'', js ''Hongkong and Shanghai Banking Corporation''),
      (js ''KPMG'', js ''Klynveld Peat Marwick Goerdeler''),
      (js ''PwC'', js ''PricewaterhouseCoopers''),
      (js ''EY'', js ''Ernst & Young''),
      (js ''CVS'', js ''Consumer Value Stores''),
      (js ''IKEA'', js ''Ingvar Kamprad Elmtaryd Agunnaryd'')]"

text \<open>
  \<open>normalize\<close> on a string: the steps before the abbreviation lookup are
  \<open>cleanName\<close>, the lookup loop is \<open>matchedAbbreviation\<close> (the first entry whose
  key equals the cleaned name in lower case) and \<open>expandAbbreviation\<close>. The empty string is falsy and
  is returned as it is. On a value that is not a string \<open>normalize\<close> returns the empty
  string.
\<close>

definition cleanName :: "jsstring \<Rightarrow> jsstring" where
  "cleanName companyName =
     trim (collapseSpaces (removeSuffixes None (filter (\<lambda>c. c \<noteq> 44 \<and> c \<noteq> 59) companyName)))"

definition matchedAbbreviation :: "jsstring \<Rightarrow> (jsstring \<times> jsstring) option" where
  "matchedAbbreviation cleaned =
     find (\<lambda>(abbr, full). toLowerCase cleaned = toLowerCase abbr) abbreviations"

definition expandAbbreviation :: "jsstring \<Rightarrow> jsstring" where
  "expandAbbreviation cleaned =
     (case matchedAbbreviation cleaned of
        Some (abbr, full) \<Rightarrow> full
      | None \<Rightarrow> cleaned)"

definition normalize :: "jsstring \<Rightarrow> jsstring" where
  "normalize companyName =
     (if companyName = [] then [] else expandAbbreviation (cleanName companyName))"

definition normalizeValue :: "jsval \<Rightarrow> jsstring" where
  "normalizeValue v = (case v of Str s \<Rightarrow> normalize s | _ \<Rightarrow> [])"

text \<open>The suffixes, each with its length and its canonical form, and the length of the
  longest of them that matches at the start of \<open>s\<close> with a word boundary behind it
  (0 when none does).\<close>

definition canonTable :: "(nat \<times> jsstring) list" where
  "canonTable = map (\<lambda>alt. (length alt, map canonicalize alt)) allSuffixes"

definition longestMatch :: "jsstring \<Rightarrow> (nat \<times> jsstring) list \<Rightarrow> nat" where
  "longestMatch s rows =
     foldl (\<lambda>best (n, ca).
              if startsWith (map canonicalize s) ca \<and> wordBoundary (charAt s (n - 1)) (charAt s n)
              then max best n else best)
       0 rows"

section \<open>Company knowledge base (CompanyKnowledgeBase)\<close>

text \<open>
  A company object is the list of its properties in their order. A property holds a
  value or, for \<open>aliases\<close>, the \<open>Set\<close> that \<open>addCompany\<close> builds (its elements in
  insertion order). The knowledge base is the \<open>companies\<close> map and the three indexes;
  an index of names or aliases maps a string to the \<open>Set\<close> of company ids.
\<close>

datatype cval = Val jsval | AliasSet "jsval list"

type_synonym company = "(jsstring \<times> cval) list"

record kb =
  companies :: "(jsval \<times> company) list"
  nameIndex :: "(jsstring \<times> jsval list) list"
  tickerIndex :: "(jsstring \<times> jsval) list"
  aliasIndex :: "(jsstring \<times> jsval list) list"

definition emptyKB :: kb where
  "emptyKB = \<lparr>companies = [], nameIndex = [], tickerIndex = [], aliasIndex = []\<rparr>"

text \<open>What a method does: it returns a value, or it throws a \<open>TypeError\<close>; either way
  it leaves a state.\<close>

datatype 'a result = Returned 'a kb | Thrown kb


text \<open>The own enumerable properties of a value: those of an object, the elements of an
  array and the code units of a string under their indexes, none for the other
  values. \<open>getProp\<close> reads an own property; a missing property reads as undefined
  (the names read here are none of the inherited ones). \<open>assignProps\<close> is the copy
  that \<open>Object.assign\<close> and the spread make: each own key of the source in order, with
  the value read from the source.\<close>

definition indexed :: "jsval list \<Rightarrow> (jsstring \<times> jsval) list" where
  "indexed xs = map (\<lambda>i. (decimal i, xs ! i)) [0 ..< length xs]"

fun ownProps :: "jsval \<Rightarrow> (jsstring \<times> jsval) list" where
  "ownProps (Obj i ps) = ps"
| "ownProps (Arr i xs) = indexed xs"
| "ownProps (Str s) = indexed (map (\<lambda>c. Str [c]) s)"
| "ownProps v = []"

definition getProp :: "jsval \<Rightarrow> jsstring \<Rightarrow> jsval" where
  "getProp v name = (case map_of (ownProps v) name of None \<Rightarrow> Undefined | Some x \<Rightarrow> x)"


definition assignProps :: "company \<Rightarrow> jsval \<Rightarrow> jsstring list \<Rightarrow> company" where
  "assignProps target source keys =
     foldl (\<lambda>acc k. Map_set (=) acc k (Val (getProp source k))) target keys"

text \<open>
  The normalizer of the knowledge base is \<open>new window.CompanyNormalizer()\<close> when that
  class is there, and null otherwise: \<open>nz\<close> is \<open>None\<close> or the \<open>normalize\<close> of the
  normalizer on strings. \<open>normalizeKey\<close> is the expression
  \<open>this.normalizer ? this.normalizer.normalize(x) : x.toLowerCase()\<close>: the normalizer
  returns the empty string for a value that is not a string, and \<open>x.toLowerCase()\<close>
  throws for one.
\<close>

definition normalizeKey :: "(jsstring \<Rightarrow> jsstring) option \<Rightarrow> jsval \<Rightarrow> jsstring option" where
  "normalizeKey nz x =
     (case nz of
        Some f \<Rightarrow> Some (case x of Str s \<Rightarrow> (if s = [] then [] else f s) | _ \<Rightarrow> [])
      | None \<Rightarrow> (case x of Str s \<Rightarrow> Some (toLowerCase s) | _ \<Rightarrow> None))"

text \<open>\<open>addToNameIndex\<close> and \<open>addToAliasIndex\<close>.\<close>

definition addToIndex ::
  "(jsstring \<times> jsval list) list \<Rightarrow> jsstring \<Rightarrow> jsval \<Rightarrow> (jsstring \<times> jsval list) list" where
  "addToIndex index name companyId =
     (let existing = (case Map_get (=) index name of None \<Rightarrow> [] | Some ids \<Rightarrow> ids)
      in Map_set (=) index name (Set_add sameValue existing companyId))"

text \<open>Iterating a string yields its code points: a high surrogate followed by a low one
  is one element.\<close>

fun codePoints :: "jsstring \<Rightarrow> jsstring list" where
  "codePoints [] = []"
| "codePoints [c] = [[c]]"
| "codePoints (c # d # cs) =
     (if 55296 \<le> c \<and> c \<le> 56319 \<and> 56320 \<le> d \<and> d \<le> 57343 then [c, d] # codePoints cs
      else [c] # codePoints (d # cs))"

text \<open>\<open>new Set(aliases)\<close>: empty for null, the elements of an array, the code points of
  a string; a number, a boolean and a plain object are not iterable.\<close>

definition newSet :: "jsval \<Rightarrow> jsval list option" where
  "newSet v =
     (case v of
        Null \<Rightarrow> Some []
      | Undefined \<Rightarrow> Some []
      | Arr i xs \<Rightarrow> Some (Set_of sameValue xs)
      | Str s \<Rightarrow> Some (Set_of sameValue (map Str (codePoints s)))
      | _ \<Rightarrow> None)"

text \<open>The loop of \<open>aliases.forEach\<close> in \<open>addCompany\<close>; it stops where
  \<open>alias.toLowerCase()\<close> throws, with the aliases before it indexed.\<close>

fun indexAliases ::
  "(jsstring \<Rightarrow> jsstring) option \<Rightarrow> jsval \<Rightarrow> kb \<Rightarrow> jsval list \<Rightarrow> unit result" where
  "indexAliases nz companyId s [] = Returned () s"
| "indexAliases nz companyId s (alias # rest) =
     (case normalizeKey nz alias of
        None \<Rightarrow> Thrown s
      | Some normalizedAlias \<Rightarrow>
          indexAliases nz companyId
            (s\<lparr>aliasIndex := addToIndex (aliasIndex s) normalizedAlias companyId\<rparr>) rest)"

text \<open>
  \<open>addCompany\<close>; \<open>now\<close> is the reading of \<open>Date.now()\<close>. Destructuring null or
  undefined throws. The arguments of \<open>companies.set\<close> are evaluated before the call, so
  an error in them leaves the state as it was. \<open>aliases.forEach\<close> exists for an array
  only, and \<open>ticker.toUpperCase\<close> for a string only.
\<close>

definition addCompany ::
  "(jsstring \<Rightarrow> jsstring) option \<Rightarrow> int \<Rightarrow> kb \<Rightarrow> jsval \<Rightarrow> unit result" where
  "addCompany nz now s companyData =
     (if companyData = Undefined \<or> companyData = Null then Thrown s
      else
        let cid = getProp companyData (js ''id'');
            name = getProp companyData (js ''name'');
            aliases = (if getProp companyData (js ''aliases'') = Undefined then Arr 0 []
                       else getProp companyData (js ''aliases''));
            ticker = getProp companyData (js ''ticker'');
            metadata = filter (\<lambda>k. k \<notin> {js ''id'', js ''name'', js ''aliases'', js ''ticker''})
                         (map fst (ownProps companyData))
        in case normalizeKey nz name of
             None \<Rightarrow> Thrown s
           | Some normalizedName \<Rightarrow>
               (case newSet aliases of
                  None \<Rightarrow> Thrown s
                | Some aliasSet \<Rightarrow>
                    let obj0 = [(js ''id'', Val cid), (js ''name'', Val name),
                                (js ''normalizedName'', Val (Str normalizedName)),
                                (js ''aliases'', AliasSet aliasSet), (js ''ticker'', Val ticker)];
                        obj1 = assignProps obj0 companyData metadata;
                        obj = Map_set (=) obj1 (js ''dateAdded'') (Val (Num (real_of_int now)));
                        s1 = s\<lparr>companies := Map_set sameValue (companies s) cid obj\<rparr>;
                        s2 = s1\<lparr>nameIndex := addToIndex (nameIndex s1) normalizedName cid\<rparr>
                    in (case aliases of
                          Arr i xs \<Rightarrow>
                            (case indexAliases nz cid s2 xs of
                               Thrown s3 \<Rightarrow> Thrown s3
                             | Returned u s3 \<Rightarrow>
                                 if truthy ticker then
                                   (case ticker of
                                      Str t \<Rightarrow>
                                        Returned ()
                                          (s3\<lparr>tickerIndex :=
                                               Map_set (=) (tickerIndex s3) (toUpperCase t) cid\<rparr>)
                                    | _ \<Rightarrow> Thrown s3)
                                 else Returned () s3)
                        | _ \<Rightarrow> Thrown s2)))"

text \<open>The results of the lookups: null, undefined (an id without a company), or the
  company object.\<close>

datatype lookup = NullResult | UndefinedResult | CompanyResult company

definition getCompany :: "kb \<Rightarrow> jsval \<Rightarrow> lookup" where
  "getCompany s companyId =
     (case Map_get sameValue (companies s) companyId of
        None \<Rightarrow> UndefinedResult
      | Some c \<Rightarrow> CompanyResult c)"

definition findByName :: "(jsstring \<Rightarrow> jsstring) option \<Rightarrow> kb \<Rightarrow> jsval \<Rightarrow> lookup result" where
  "findByName nz s name =
     (case normalizeKey nz name of
        None \<Rightarrow> Thrown s
      | Some normalizedQuery \<Rightarrow>
          (case Map_get (=) (nameIndex s) normalizedQuery of
             None \<Rightarrow> Returned NullResult s
           | Some [] \<Rightarrow> Returned NullResult s
           | Some (companyId # ids) \<Rightarrow> Returned (getCompany s companyId) s))"

definition findByTicker :: "kb \<Rightarrow> jsval \<Rightarrow> lookup result" where
  "findByTicker s ticker =
     (case ticker of
        Str t \<Rightarrow>
          (case Map_get (=) (tickerIndex s) (toUpperCase t) of
             None \<Rightarrow> Returned NullResult s
           | Some companyId \<Rightarrow>
               if truthy companyId then Returned (getCompany s companyId) s
               else Returned NullResult s)
      | _ \<Rightarrow> Thrown s)"

definition findByAlias ::
  "(jsstring \<Rightarrow> jsstring) option \<Rightarrow> kb \<Rightarrow> jsval \<Rightarrow> lookup list option result" where
  "findByAlias nz s alias =
     (case normalizeKey nz alias of
        None \<Rightarrow> Thrown s
      | Some normalizedQuery \<Rightarrow>
          (case Map_get (=) (aliasIndex s) normalizedQuery of
             None \<Rightarrow> Returned None s
           | Some [] \<Rightarrow> Returned None s
           | Some ids \<Rightarrow> Returned (Some (map (getCompany s) ids)) s))"




text \<open>
  \<open>fromJSON\<close>. \<open>parsed\<close> is what \<open>JSON.parse(jsonData)\<close> gives: \<open>None\<close> when it
  throws, the decoded value otherwise. \<open>clock i\<close> is the reading of \<open>Date.now()\<close>
  while record \<open>i\<close> is added. \<open>loadCompanies\<close> is the loop over \<open>data.companies\<close>.
\<close>

fun loadCompanies ::
  "(jsstring \<Rightarrow> jsstring) option \<Rightarrow> (nat \<Rightarrow> int) \<Rightarrow> nat \<Rightarrow> kb \<Rightarrow> jsval list \<Rightarrow> unit result" where
  "loadCompanies nz clock i s [] = Returned () s"
| "loadCompanies nz clock i s (c # cs) =
     (case addCompany nz (clock i) s c of
        Thrown s1 \<Rightarrow> Thrown s1
      | Returned u s1 \<Rightarrow> loadCompanies nz clock (Suc i) s1 cs)"

definition fromJSON ::
  "(jsstring \<Rightarrow> jsstring) option \<Rightarrow> (nat \<Rightarrow> int) \<Rightarrow> jsval option \<Rightarrow> kb \<Rightarrow> bool \<times> kb" where
  "fromJSON nz clock parsed s =
     (case parsed of
        None \<Rightarrow> (False, s)
      | Some d \<Rightarrow>
          let cleared = s\<lparr>companies := [], nameIndex := [], tickerIndex := [], aliasIndex := []\<rparr>
          in if d = Undefined \<or> d = Null then (False, cleared)
             else
               (case getProp d (js ''companies'') of
                  Arr i cs \<Rightarrow>
                    (case loadCompanies nz clock 0 cleared cs of
                       Thrown s1 \<Rightarrow> (False, s1)
                     | Returned u s1 \<Rightarrow> (True, s1))
                | _ \<Rightarrow> (True, cleared)))"

text \<open>The value a call returns, when it returns.\<close>

fun valueOf :: "'a result \<Rightarrow> 'a option" where
  "valueOf (Returned x s) = Some x"
| "valueOf (Thrown s) = None"

text \<open>
  A knowledge base with one company, the state that \<open>addCompany\<close> builds from
  \<open>applePayload\<close> at time 0 with the normalizer present; a payload whose second record
  is null; and an update of the company's ticker.
\<close>

definition applePayload :: jsval where
  "applePayload =
     Obj 1 [(js ''id'', Str (js ''apple'')), (js ''name'', Str (js ''Apple Inc'')),
            (js ''aliases'', Arr 2 [Str (js ''Apple Computer'')]),
            (js ''ticker'', Str (js ''AAPL''))]"

definition appleCompany :: company where
  "appleCompany =
     [(js ''id'', Val (Str (js ''apple''))), (js ''name'', Val (Str (js ''Apple Inc''))),
      (js ''normalizedName'', Val (Str (js ''Apple''))),
      (js ''aliases'', AliasSet [Str (js ''Apple Computer'')]),
      (js ''ticker'', Val (Str (js ''AAPL''))), (js ''dateAdded'', Val (Num 0))]"

definition appleKB :: kb where
  "appleKB =
     \<lparr>companies = [(Str (js ''apple''), appleCompany)],
      nameIndex = [(js ''Apple'', [Str (js ''apple'')])],
      tickerIndex = [(js ''AAPL'', Str (js ''apple''))],
      aliasIndex = [(js ''Apple Computer'', [Str (js ''apple'')])]\<rparr>"

definition brokenPayload :: jsval where
  "brokenPayload =
     Obj 3 [(js ''companies'',
             Arr 4 [Obj 5 [(js ''id'', Str (js ''tesla'')), (js ''name'', Str (js ''Tesla Inc'')),
                           (js ''ticker'', Str (js ''TSLA''))],
                    Null])]"


text \<open>The state that the import of \<open>brokenPayload\<close> leaves, with the clock at 1000.\<close>

definition teslaKB :: kb where
  "teslaKB =
     \<lparr>companies =
        [(Str (js ''tesla''),
          [(js ''id'', Val (Str (js ''tesla''))), (js ''name'', Val (Str (js ''Tesla Inc''))),
           (js ''normalizedName'', Val (Str (js ''Tesla''))), (js ''aliases'', AliasSet []),
           (js ''ticker'', Val (Str (js ''TSLA''))), (js ''dateAdded'', Val (Num 1000))])],
      nameIndex = [(js ''Tesla'', [Str (js ''tesla'')])],
      tickerIndex = [(js ''TSLA'', Str (js ''tesla''))],
      aliasIndex = []\<rparr>"

section \<open>Extraction under the timeout (nlp-processor.js)\<close>










text \<open>A processor with an empty cache.\<close>

definition freshProcessor :: processor where
  "freshProcessor =
     \<lparr>entityCache = [], stats = \<lparr>totalProcessed = 0, averageTime = 0, cacheHits = 0\<rparr>\<rparr>"

section \<open>Properties of the structural context analyzer\<close>

lemma positionWeight_pos: "0 < positionWeight pos"
  by (simp add: positionWeight_def positionWeights_def js_def)

lemma structuralWeightLoop_Max:
  "structuralWeightLoop m ps = (if ps = [] then m else max m (Max (positionWeight ` set ps)))"
proof (induction ps arbitrary: m)
  case Nil
  show ?case by simp
next
  case (Cons p ps)
  show ?case
  proof (cases "ps = []")
    case True
    then show ?thesis by simp
  next
    case False
    then have "Max (insert (positionWeight p) (positionWeight ` set ps))
        = max (positionWeight p) (Max (positionWeight ` set ps))"
      by (simp add: Max_insert)
    with False Cons show ?thesis by (simp add: max.assoc)
  qed
qed

lemma positionWeight_unrecognized:
  "map_of positionWeights pos = None \<Longrightarrow> positionWeight pos = 1/2"
  by (simp add: positionWeight_def)

lemma Max_positionWeight_pos:
  assumes "ps \<noteq> []"
  shows "0 < Max (positionWeight ` set ps)"
proof -
  have "Max (positionWeight ` set ps) \<in> positionWeight ` set ps"
    using assms by (intro Max_in) auto
  then show ?thesis using positionWeight_pos by auto
qed

text \<open>Claim C8, as the code has it. \<open>calculateStructuralWeight\<close> is 0 for the empty list of
  position tags, and for a non-empty list it is the greatest of the weights of its tags,
  where a tag of the table has the table's weight and every other tag has 0.5. So a
  non-empty list with no tag of the table weighs 0.5.\<close>

theorem structural_weight_is_max_with_default:
  "calculateStructuralWeight positions
     = (if positions = [] then 0 else Max (positionWeight ` set positions))
   \<and> (positions \<noteq> [] \<and> (\<forall>pos \<in> set positions. map_of positionWeights pos = None)
        \<longrightarrow> calculateStructuralWeight positions = 1/2)"
proof -
  have a: "calculateStructuralWeight positions
     = (if positions = [] then 0 else Max (positionWeight ` set positions))"
    using Max_positionWeight_pos [of positions]
    by (simp add: calculateStructuralWeight_def structuralWeightLoop_Max max_absorb2)
  have b: "calculateStructuralWeight positions = 1/2"
    if "positions \<noteq> []" and "\<forall>pos \<in> set positions. map_of positionWeights pos = None"
  proof -
    from that have "positionWeight ` set positions = {1/2}"
      by (cases positions) (auto simp: positionWeight_unrecognized)
    with a that show ?thesis by simp
  qed
  from a b show ?thesis by blast
qed

text \<open>The weight of the empty list is 0, not the default 0.5; and a list with a tag of
  the table and a tag outside it weighs at least 0.5, not the table's maximum.\<close>

theorem structural_weight_default_counterexample:
  "calculateStructuralWeight [] \<noteq> specStructuralWeight []
   \<and> calculateStructuralWeight [js ''footer'', js ''quote'']
        \<noteq> specStructuralWeight [js ''footer'', js ''quote'']"
  by (simp add: calculateStructuralWeight_def specStructuralWeight_def positionWeight_def
      positionWeights_def js_def List.map_filter_simps)

text \<open>The theorem at lists of one and two tags.\<close>

theorem structural_weight_witness:
  "[js ''quote''] \<noteq> [] \<and> map_of positionWeights (js ''quote'') = None
   \<and> calculateStructuralWeight [js ''quote''] = 1/2
   \<and> calculateStructuralWeight [js ''footer'', js ''quote''] = 1/2
   \<and> calculateStructuralWeight [js ''footer'', js ''h2''] = 8/10"
  using structural_weight_is_max_with_default [of "[js ''quote'']"]
    structural_weight_is_max_with_default [of "[js ''footer'', js ''quote'']"]
    structural_weight_is_max_with_default [of "[js ''footer'', js ''h2'']"]
  by (simp add: positionWeights_def js_def positionWeight_def)

section \<open>Properties of the result cache\<close>

lemma Map_get_set_same: "Map_get (=) (Map_set (=) m k v) k = Some v"
  by (induction m) auto

lemma Map_get_delete_same:
  "distinct (map fst m) \<Longrightarrow> Map_get (=) (Map_delete (=) m k) k = None"
proof (induction m)
  case Nil
  show ?case by simp
next
  case (Cons kv m)
  obtain k' v' where kv: "kv = (k', v')" by (cases kv)
  have "Map_get (=) m k = None" if "k' = k"
  proof -
    from Cons.prems kv that have "k \<notin> fst ` set m" by simp
    then show ?thesis by (induction m) auto
  qed
  with Cons kv show ?case by auto
qed

lemma Map_delete_first: "m \<noteq> [] \<Longrightarrow> Map_delete (=) m (fst (hd m)) = tl m"
  by (cases m) auto

lemma set_Map_delete: "set (Map_delete (=) m k) \<subseteq> set m"
  by (induction m) (auto split: if_splits)

lemma Map_get_None_iff: "Map_get (=) m k = None \<longleftrightarrow> k \<notin> fst ` set m"
  by (induction m) (auto simp: image_iff split: if_splits)

lemma Map_set_fresh: "Map_get (=) m k = None \<Longrightarrow> Map_set (=) m k v = m @ [(k, v)]"
  by (induction m) (auto split: if_splits)

lemma cacheOrdered_Map_delete:
  "cacheOrdered cache \<Longrightarrow> cacheOrdered (Map_delete (=) cache k)"
proof (induction cache)
  case Nil
  then show ?case by simp
next
  case (Cons kv cache)
  from Cons.prems have tl: "cacheOrdered cache" by (simp add: cacheOrdered_def)
  show ?case
  proof (cases "fst kv = k")
    case True
    with tl show ?thesis by (cases kv) simp
  next
    case False
    from Cons.IH tl have ih: "cacheOrdered (Map_delete (=) cache k)" by simp
    have sub: "set (Map_delete (=) cache k) \<subseteq> set cache" by (rule set_Map_delete)
    from False have eq: "Map_delete (=) (kv # cache) k = kv # Map_delete (=) cache k"
      by (cases kv) simp
    from Cons.prems sub ih show ?thesis
      unfolding eq cacheOrdered_def by (auto simp: image_iff)
  qed
qed

lemma checkCache_ordered:
  "cacheOrdered cache \<Longrightarrow> cacheOrdered (snd (checkCache cache key now))"
  by (auto simp: checkCache_def split: option.splits intro: cacheOrdered_Map_delete)

lemma cacheResults_ordered:
  assumes "cacheOrdered cache" and "Map_get (=) cache key = None"
    and "\<forall>kv \<in> set cache. timestamp (snd kv) \<le> now"
  shows "cacheOrdered (cacheResults cache key r now)"
proof -
  define c where "c = (if length cache > 1000 then Map_delete (=) cache (fst (hd cache)) else cache)"
  have ord: "cacheOrdered c" using assms(1) by (simp add: c_def cacheOrdered_Map_delete)
  have set: "set c \<subseteq> set cache"
    using set_Map_delete [of cache "fst (hd cache)"] by (simp add: c_def)
  from assms(2) set have fresh: "Map_get (=) c key = None"
    by (auto simp: Map_get_None_iff)
  have "cacheResults cache key r now = c @ [(key, \<lparr>data = r, timestamp = now\<rparr>)]"
    using fresh by (simp add: cacheResults_def c_def [symmetric] Map_set_fresh)
  moreover have "cacheOrdered (c @ [(key, \<lparr>data = r, timestamp = now\<rparr>)])"
    using ord fresh set assms(3)
    by (auto simp: cacheOrdered_def Map_get_None_iff sorted_append image_iff)
  ultimately show ?thesis by simp
qed

lemma cacheOrdered_hd_oldest:
  assumes "cacheOrdered cache" and "cache \<noteq> []"
  shows "\<forall>kv \<in> set cache. timestamp (snd (hd cache)) \<le> timestamp (snd kv)"
  using assms by (cases cache) (auto simp: cacheOrdered_def)

text \<open>Claim C5. A read of a key whose entry is as old as the timeout (300000 ms) or older
  returns nothing and deletes the entry; whatever a read returns is the data of an entry
  younger than the timeout. A write to a cache of more than 1000 entries first deletes the
  first entry, which in a cache ordered by insertion time is the oldest one; a write to a
  cache of at most 1000 entries deletes nothing.\<close>

theorem cache_read_is_fresh_and_write_is_bounded:
  fixes cache :: "(jsstring \<times> 'r cache_entry) list"
  shows
  "(Map_get (=) cache key = Some e \<and> cacheTimeout \<le> now - timestamp e
      \<longrightarrow> checkCache cache key now = (None, Map_delete (=) cache key))
   \<and> (distinct (map fst cache) \<and> Map_get (=) cache key = Some e \<and> cacheTimeout \<le> now - timestamp e
      \<longrightarrow> Map_get (=) (snd (checkCache cache key now)) key = None)
   \<and> (fst (checkCache cache key now) = Some r
      \<longrightarrow> (\<exists>c. Map_get (=) cache key = Some c \<and> data c = r \<and> now - timestamp c < 300000))
   \<and> (length cache > 1000
      \<longrightarrow> cacheResults cache key r now
            = Map_set (=) (tl cache) key \<lparr>data = r, timestamp = now\<rparr>)
   \<and> (cacheOrdered cache \<and> length cache > 1000
      \<longrightarrow> (\<forall>kv \<in> set cache. timestamp (snd (hd cache)) \<le> timestamp (snd kv)))
   \<and> (length cache \<le> 1000
      \<longrightarrow> cacheResults cache key r now
            = Map_set (=) cache key \<lparr>data = r, timestamp = now\<rparr>)"
proof -
  have stale: "checkCache cache key now = (None, Map_delete (=) cache key)"
    if "Map_get (=) cache key = Some e" and "cacheTimeout \<le> now - timestamp e"
    using that by (simp add: checkCache_def)
  have evicted: "Map_get (=) (snd (checkCache cache key now)) key = None"
    if "distinct (map fst cache)" and "Map_get (=) cache key = Some e"
      and "cacheTimeout \<le> now - timestamp e"
    using that by (simp add: checkCache_def Map_get_delete_same)
  have fresh: "\<exists>c. Map_get (=) cache key = Some c \<and> data c = r \<and> now - timestamp c < 300000"
    if "fst (checkCache cache key now) = Some r"
    using that by (auto simp: checkCache_def cacheTimeout_def split: option.splits if_splits)
  have over: "cacheResults cache key r now
            = Map_set (=) (tl cache) key \<lparr>data = r, timestamp = now\<rparr>"
    if "length cache > 1000"
  proof -
    from that have "cache \<noteq> []" by auto
    with that show ?thesis by (simp add: cacheResults_def Map_delete_first)
  qed
  have oldest: "\<forall>kv \<in> set cache. timestamp (snd (hd cache)) \<le> timestamp (snd kv)"
    if "cacheOrdered cache" and "length cache > 1000"
    using that by (intro cacheOrdered_hd_oldest) auto
  have under: "cacheResults cache key r now
            = Map_set (=) cache key \<lparr>data = r, timestamp = now\<rparr>"
    if "length cache \<le> 1000"
    using that by (simp add: cacheResults_def)
  from stale evicted fresh over oldest under show ?thesis by blast
qed

lemma fullCache_length: "length fullCache = 1001"
  by (simp add: fullCache_def)

lemma fullCache_ordered: "cacheOrdered fullCache"
proof -
  have "inj_on (\<lambda>i. replicate i (97::nat)) A" for A
    by (rule inj_onI) (drule arg_cong [where f = length], simp)
  then have "distinct (map fst fullCache)"
    by (simp add: fullCache_def comp_def distinct_map)
  moreover have "sorted (map (\<lambda>kv. timestamp (snd kv)) fullCache)"
    by (simp add: fullCache_def comp_def sorted_map sorted_wrt_upt sorted_wrt_mono_rel [OF _ sorted_wrt_upt])
  ultimately show ?thesis by (simp add: cacheOrdered_def)
qed

text \<open>The theorem at a cache of one entry and at a cache of 1001 entries.\<close>

theorem cache_read_and_write_witness:
  "distinct (map fst oneEntryCache)
   \<and> Map_get (=) oneEntryCache (js ''nlp_1'') = Some \<lparr>data = 7, timestamp = 0\<rparr>
   \<and> cacheTimeout \<le> 300000 - timestamp \<lparr>data = 7 :: nat, timestamp = 0\<rparr>
   \<and> checkCache oneEntryCache (js ''nlp_1'') 300000 = (None, [])
   \<and> Map_get (=) (snd (checkCache oneEntryCache (js ''nlp_1'') 300000)) (js ''nlp_1'') = None
   \<and> fst (checkCache oneEntryCache (js ''nlp_1'') 299999) = Some 7
   \<and> length oneEntryCache \<le> 1000
   \<and> cacheResults oneEntryCache (js ''nlp_2'') 8 5
        = oneEntryCache @ [(js ''nlp_2'', \<lparr>data = 8, timestamp = 5\<rparr>)]
   \<and> cacheOrdered fullCache \<and> length fullCache > 1000
   \<and> timestamp (snd (hd fullCache)) \<le> timestamp (snd (last fullCache))
   \<and> cacheResults fullCache (js ''nlp_2'') 8 2000
        = Map_set (=) (tl fullCache) (js ''nlp_2'') \<lparr>data = 8, timestamp = 2000\<rparr>"
proof -
  have last: "last fullCache \<in> set fullCache"
    by (rule last_in_set) (simp add: fullCache_def)
  show ?thesis
    using cache_read_is_fresh_and_write_is_bounded
        [of oneEntryCache "js ''nlp_1''" "\<lparr>data = 7, timestamp = 0\<rparr>" 300000 7]
      cache_read_is_fresh_and_write_is_bounded
        [of oneEntryCache "js ''nlp_1''" "\<lparr>data = 7, timestamp = 0\<rparr>" 299999 7]
      cache_read_is_fresh_and_write_is_bounded
        [of oneEntryCache "js ''nlp_2''" "\<lparr>data = 7, timestamp = 0\<rparr>" 5 8]
      cache_read_is_fresh_and_write_is_bounded
        [of fullCache "js ''nlp_2''" "\<lparr>data = 7, timestamp = 0\<rparr>" 2000 8]
      fullCache_ordered fullCache_length last
    by (simp add: oneEntryCache_def js_def checkCache_def cacheTimeout_def)
qed

lemma generateCacheKey_prefix:
  assumes "take 100 s1 = take 100 s2"
  shows "generateCacheKey s1 = generateCacheKey s2"
proof -
  have "take (min (length s) 100) s = take 100 s" for s :: jsstring
    by (simp add: min_def)
  with assms show ?thesis by (simp add: generateCacheKey_def)
qed

lemma checkCache_hit:
  "Map_get (=) cache key = Some c \<Longrightarrow> now - timestamp c < cacheTimeout
     \<Longrightarrow> checkCache cache key now = (Some (data c), cache)"
  by (simp add: checkCache_def)

lemma extractEntities_miss:
  assumes "sanitizeInput t = Some s" and "s \<noteq> []"
    and "fst (checkCache (entityCache p) (generateCacheKey s) tRead) = None"
    and "stage s = Inr v"
  shows "fst (extractEntities stage p t tRead tWrite el) = v"
    and "Map_get (=) (entityCache (snd (extractEntities stage p t tRead tWrite el))) (generateCacheKey s)
           = Some \<lparr>data = v, timestamp = tWrite\<rparr>"
proof -
  obtain c1 where c: "checkCache (entityCache p) (generateCacheKey s) tRead = (None, c1)"
    using assms(3) by (cases "checkCache (entityCache p) (generateCacheKey s) tRead") auto
  with assms show "fst (extractEntities stage p t tRead tWrite el) = v"
    by (simp add: extractEntities_def)
  from c assms show "Map_get (=) (entityCache (snd (extractEntities stage p t tRead tWrite el)))
      (generateCacheKey s) = Some \<lparr>data = v, timestamp = tWrite\<rparr>"
    by (simp add: extractEntities_def cacheResults_def Map_get_set_same)
qed

lemma extractEntities_hit:
  assumes "sanitizeInput t = Some s" and "s \<noteq> []"
    and "Map_get (=) (entityCache p) (generateCacheKey s) = Some c"
    and "tRead - timestamp c < cacheTimeout"
  shows "fst (extractEntities stage p t tRead tWrite el) = data c"
  using assms by (simp add: extractEntities_def checkCache_hit)

text \<open>Claim C9. The cache key is computed from the first 100 code units of the sanitized
  text. When two sanitized texts agree there, their keys are equal, and a call with the
  second text, read within the timeout of the write of the first call, returns the result
  that the first call computed and cached.\<close>

theorem cache_key_collision_serves_first_result:
  assumes "sanitizeInput t1 = Some s1" and "s1 \<noteq> []"
    and "sanitizeInput t2 = Some s2" and "s2 \<noteq> []"
    and "take 100 s1 = take 100 s2"
    and "fst (checkCache (entityCache p) (generateCacheKey s1) tRead1) = None"
    and "stage1 s1 = Inr v1"
    and "tRead2 - tWrite1 < cacheTimeout"
  shows "generateCacheKey s1 = generateCacheKey s2
       \<and> fst (extractEntities stage1 p t1 tRead1 tWrite1 el1) = v1
       \<and> fst (extractEntities stage2 (snd (extractEntities stage1 p t1 tRead1 tWrite1 el1))
                t2 tRead2 tWrite2 el2) = v1"
proof -
  have k: "generateCacheKey s1 = generateCacheKey s2"
    using assms(5) by (rule generateCacheKey_prefix)
  have first: "fst (extractEntities stage1 p t1 tRead1 tWrite1 el1) = v1"
    using assms(1,2,6,7) by (rule extractEntities_miss(1) [where stage = stage1])
  have "Map_get (=) (entityCache (snd (extractEntities stage1 p t1 tRead1 tWrite1 el1)))
          (generateCacheKey s2) = Some \<lparr>data = v1, timestamp = tWrite1\<rparr>"
    using extractEntities_miss(2) [where stage = stage1, OF assms(1,2,6,7)] k by simp
  then have "fst (extractEntities stage2 (snd (extractEntities stage1 p t1 tRead1 tWrite1 el1))
                t2 tRead2 tWrite2 el2) = data \<lparr>data = v1, timestamp = tWrite1\<rparr>"
    using assms(3,4,8) by (intro extractEntities_hit) simp_all
  with k first show ?thesis by simp
qed

lemma collapseSpaces_clean: "\<forall>c \<in> set s. \<not> isSpace c \<Longrightarrow> collapseSpaces s = s"
  by (induction s) auto

lemma trim_clean: "s \<noteq> [] \<Longrightarrow> \<not> isSpace (hd s) \<Longrightarrow> \<not> isSpace (last s) \<Longrightarrow> trim s = s"
proof -
  assume a: "s \<noteq> []" "\<not> isSpace (hd s)" "\<not> isSpace (last s)"
  then have "dropWhile isSpace s = s" by (cases s) auto
  moreover from a have "dropWhile isSpace (rev s) = rev s"
    by (cases "rev s") (auto simp: last_rev [symmetric] hd_rev)
  ultimately show ?thesis by (simp add: trim_def)
qed

lemma sanitizeInput_clean:
  assumes "length s \<le> 1000" and "s \<noteq> []"
    and "\<forall>c \<in> set s. \<not> isSpace c \<and> \<not> isControl c \<and> c \<noteq> 60 \<and> c \<noteq> 62"
  shows "sanitizeInput (Str s) = Some s"
proof -
  from assms have "\<not> isSpace (hd s)" "\<not> isSpace (last s)" by auto
  with assms show ?thesis
    by (simp add: sanitizeInput_def maxInputLength_def collapseSpaces_clean trim_clean)
qed


text \<open>The theorem at two different texts of 101 code units.\<close>

theorem cache_key_collision_witness:
  "longTextA \<noteq> longTextB
   \<and> sanitizeInput (Str longTextA) = Some longTextA \<and> longTextA \<noteq> []
   \<and> sanitizeInput (Str longTextB) = Some longTextB \<and> longTextB \<noteq> []
   \<and> take 100 longTextA = take 100 longTextB
   \<and> fst (checkCache (entityCache freshProcessor) (generateCacheKey longTextA) 1000) = None
   \<and> (301000 :: int) - 1001 < cacheTimeout
   \<and> generateCacheKey longTextA = generateCacheKey longTextB
   \<and> fst (extractEntities (\<lambda>s. Inr (emptyExtraction (Some s))) freshProcessor
             (Str longTextA) 1000 1001 1) = emptyExtraction (Some longTextA)
   \<and> fst (extractEntities (\<lambda>s. Inr (emptyExtraction (Some s)))
        (snd (extractEntities (\<lambda>s. Inr (emptyExtraction (Some s))) freshProcessor
               (Str longTextA) 1000 1001 1))
        (Str longTextB) 301000 301001 1) = emptyExtraction (Some longTextA)"
proof -
  have sa: "sanitizeInput (Str longTextA) = Some longTextA"
    by (rule sanitizeInput_clean) (auto simp: longTextA_def isSpace_def isControl_def)
  have sb: "sanitizeInput (Str longTextB) = Some longTextB"
    by (rule sanitizeInput_clean) (auto simp: longTextB_def isSpace_def isControl_def)
  have ne: "longTextA \<noteq> longTextB" by (simp add: longTextA_def longTextB_def)
  have pre: "take 100 longTextA = take 100 longTextB" by (simp add: longTextA_def longTextB_def)
  have miss: "fst (checkCache (entityCache freshProcessor) (generateCacheKey longTextA) 1000)
      = (None :: extraction option)"
    by (simp add: checkCache_def freshProcessor_def)
  have ttl: "(301000::int) - 1001 < cacheTimeout" by (simp add: cacheTimeout_def)
  have a: "longTextA \<noteq> []" and b: "longTextB \<noteq> []"
    by (simp_all add: longTextA_def longTextB_def)
  show ?thesis
    using cache_key_collision_serves_first_result
      [where ?stage1.0 = "\<lambda>s. Inr (emptyExtraction (Some s))"
         and ?v1.0 = "emptyExtraction (Some longTextA)"
         and ?stage2.0 = "\<lambda>s. Inr (emptyExtraction (Some s))"
         and ?tWrite1.0 = 1001 and ?tRead2.0 = 301000 and ?tWrite2.0 = 301001
         and ?el1.0 = 1 and ?el2.0 = 1,
       OF sa a sb b pre miss refl ttl]
      sa sb ne a b pre miss ttl by simp
qed

section \<open>Properties of the ranking\<close>

lemma insertBy_sorted:
  assumes total: "\<And>x y. \<not> cmp x y \<le> 0 \<Longrightarrow> R y x"
    and le: "\<And>x y. cmp x y \<le> 0 \<Longrightarrow> R x y"
    and trans: "\<And>x y z. R x y \<Longrightarrow> R y z \<Longrightarrow> R x z"
  shows "sorted_wrt R ys \<Longrightarrow> sorted_wrt R (insertBy cmp x ys)"
proof (induction ys)
  case Nil
  show ?case by simp
next
  case (Cons y ys)
  have set_ins: "set (insertBy cmp x zs) = insert x (set zs)" for zs
    by (induction zs) auto
  show ?case
  proof (cases "cmp x y \<le> 0")
    case True
    then have "R x y" by (rule le)
    with Cons.prems trans have "\<forall>z \<in> set ys. R x z" by auto
    with True Cons.prems \<open>R x y\<close> show ?thesis by simp
  next
    case False
    then have "R y x" by (rule total)
    with False Cons show ?thesis by (auto simp: set_ins)
  qed
qed

lemma sortBy_sorted:
  assumes "\<And>x y. \<not> cmp x y \<le> 0 \<Longrightarrow> R y x"
    and "\<And>x y. cmp x y \<le> 0 \<Longrightarrow> R x y"
    and "\<And>x y z. R x y \<Longrightarrow> R y z \<Longrightarrow> R x z"
  shows "sorted_wrt R (sortBy cmp xs)"
  unfolding sortBy_def
  by (induction xs) (simp_all add: insertBy_sorted [where R = R and cmp = cmp, OF assms])

lemma mset_insertBy: "mset (insertBy cmp x ys) = add_mset x (mset ys)"
  by (induction ys) auto

lemma mset_sortBy: "mset (sortBy cmp xs) = mset xs"
  unfolding sortBy_def by (induction xs) (simp_all add: mset_insertBy)

lemma compareEnhanced_le: "compareEnhanced a b \<le> 0 \<longleftrightarrow> enhancedRankOrder a b"
  by (auto simp: compareEnhanced_def enhancedRankOrder_def)

lemma enhancedRankOrder_total: "\<not> enhancedRankOrder a b \<Longrightarrow> enhancedRankOrder b a"
  by (auto simp: enhancedRankOrder_def)

lemma enhancedRankOrder_trans:
  "enhancedRankOrder a b \<Longrightarrow> enhancedRankOrder b c \<Longrightarrow> enhancedRankOrder a c"
  unfolding enhancedRankOrder_def by (cases "hasKB a"; cases "hasKB b"; cases "hasKB c") auto

lemma compareBase_le: "compareBase a b \<le> 0 \<longleftrightarrow> baseRankOrder a b"
  by (auto simp: compareBase_def baseRankOrder_def)

lemma baseRankOrder_total: "\<not> baseRankOrder a b \<Longrightarrow> baseRankOrder b a"
  by (auto simp: baseRankOrder_def)

lemma baseRankOrder_trans: "baseRankOrder a b \<Longrightarrow> baseRankOrder b c \<Longrightarrow> baseRankOrder a c"
  unfolding baseRankOrder_def by auto

text \<open>Claim C6, as the code has it. \<open>rankEnhancedEntities\<close> returns its input sorted by:
  a knowledge-base match with a score above 0.8 first, then the higher confidence, then
  the higher type priority, then the earlier position. The sort of
  \<open>validateAndRankEntities\<close> orders by the higher confidence, then the earlier
  position.\<close>

theorem ranking_order_of_the_code:
  "sorted_wrt enhancedRankOrder (rankEnhancedEntities es)
   \<and> mset (rankEnhancedEntities es) = mset es
   \<and> sorted_wrt baseRankOrder (sortedEntities es)
   \<and> mset (sortedEntities es) = mset es"
proof -
  have "sorted_wrt enhancedRankOrder (sortBy compareEnhanced es)"
    by (rule sortBy_sorted)
       (auto simp: compareEnhanced_le dest: enhancedRankOrder_total enhancedRankOrder_trans)
  moreover have "sorted_wrt baseRankOrder (sortBy compareBase es)"
    by (rule sortBy_sorted)
       (auto simp: compareBase_le dest: baseRankOrder_total baseRankOrder_trans)
  ultimately show ?thesis
    by (simp add: rankEnhancedEntities_def sortedEntities_def mset_sortBy)
qed

text \<open>An entity with a knowledge-base match is ranked before an entity with a higher
  score: the output is not in the order of the specification.\<close>

theorem ranking_knowledge_base_first_counterexample:
  "rankEnhancedEntities [entityA, entityB] = [entityB, entityA]
   \<and> \<not> successively specRankOrder (rankEnhancedEntities [entityA, entityB])"
  by (simp add: rankEnhancedEntities_def sortBy_def compareEnhanced_def hasKB_def
      specRankOrder_def entityA_def entityB_def)

section \<open>Properties of the fuzzy matcher\<close>

lemma levenshteinCell_le: "levenshteinCell s t i j \<le> max i j"
  by (induction s t i j rule: levenshteinCell.induct) auto

lemma levenshtein_quotient:
  "0 \<le> 1 - real (levenshteinDistance x y) / real (max (length x) (length y))
   \<and> 1 - real (levenshteinDistance x y) / real (max (length x) (length y)) \<le> 1"
proof (cases "max (length x) (length y) = 0")
  case True
  then show ?thesis by simp
next
  case False
  have "real (levenshteinDistance x y) \<le> real (max (length x) (length y))"
    using levenshteinCell_le [of x y "length x" "length y"]
    unfolding levenshteinDistance_def by (simp only: of_nat_le_iff)
  moreover from False have "0 < max (length x) (length y)"
    by (simp only: neq0_conv)
  then have "0 < real (max (length x) (length y))"
    by (simp only: of_nat_0_less_iff)
  ultimately have "real (levenshteinDistance x y) / real (max (length x) (length y)) \<le> 1"
    by (simp only: divide_le_eq_1_pos)
  moreover have "0 \<le> real (levenshteinDistance x y) / real (max (length x) (length y))"
    by simp
  ultimately show ?thesis by linarith
qed

lemma ratio_bounds: "0 \<le> ratio a b \<and> ratio a b \<le> 1"
  using levenshtein_quotient [of "trim (toLowerCase a)" "trim (toLowerCase b)"]
  by (simp add: ratio_def Let_def)

lemma foldl_max_bounds:
  assumes "0 \<le> (b::real)" "b \<le> 1" "\<And>i. 0 \<le> f i \<and> f i \<le> 1"
  shows "0 \<le> foldl (\<lambda>best i. max best (f i)) b xs \<and> foldl (\<lambda>best i. max best (f i)) b xs \<le> 1"
  using assms(1,2)
proof (induction xs arbitrary: b)
  case Nil
  then show ?case by simp
next
  case (Cons x xs)
  have "0 \<le> max b (f x)" "max b (f x) \<le> 1" using Cons.prems assms(3) [of x] by auto
  then show ?case using Cons.IH by simp
qed

lemma partialRatio_bounds: "0 \<le> partialRatio a b \<and> partialRatio a b \<le> 1"
proof -
  have "0 \<le> foldl (\<lambda>bestRatio i. max bestRatio (ratio s (take n (drop i l)))) 0 xs
      \<and> foldl (\<lambda>bestRatio i. max bestRatio (ratio s (take n (drop i l)))) 0 xs \<le> 1"
    for s l :: jsstring and n and xs :: "nat list"
    by (rule foldl_max_bounds) (simp_all add: ratio_bounds)
  then show ?thesis
    by (simp add: partialRatio_def Let_def del: upt_Suc)
qed

lemma tokenSortRatio_bounds: "0 \<le> tokenSortRatio a b \<and> tokenSortRatio a b \<le> 1"
  using ratio_bounds by (simp add: tokenSortRatio_def)

lemma set_Set_add: "set (Set_add (=) xs x) = insert x (set xs)"
  by (induction xs) auto

lemma distinct_Set_add: "distinct xs \<Longrightarrow> distinct (Set_add (=) xs x)"
  by (induction xs) (auto simp: set_Set_add)

lemma Set_of_foldl:
  "distinct acc \<Longrightarrow> distinct (foldl (Set_add (=)) acc xs)
     \<and> set (foldl (Set_add (=)) acc xs) = set acc \<union> set xs"
  by (induction xs arbitrary: acc) (auto simp: set_Set_add distinct_Set_add)

lemma distinct_Set_of: "distinct (Set_of (=) xs)"
  and set_Set_of: "set (Set_of (=) xs) = set xs"
  using Set_of_foldl [of "[]" xs] by (simp_all add: Set_of_def)

lemma tokenSetRatio_bounds: "0 \<le> tokenSetRatio a b \<and> tokenSetRatio a b \<le> 1"
proof -
  have le: "length (filter (\<lambda>x. x \<in> set s2) s1) \<le> length (Set_of (=) (s1 @ s2))"
    if "distinct s1" for s1 s2 :: "jsstring list"
  proof -
    have "length (filter (\<lambda>x. x \<in> set s2) s1) \<le> length s1" by simp
    also have "\<dots> = card (set s1)" using that by (simp add: distinct_card)
    also have "\<dots> \<le> card (set (Set_of (=) (s1 @ s2)))"
      by (rule card_mono) (auto simp: set_Set_of)
    also have "\<dots> = length (Set_of (=) (s1 @ s2))"
      by (simp add: distinct_card distinct_Set_of)
    finally show ?thesis .
  qed
  have d1: "distinct (if length (filter P (Set_of (=) xs)) > 0 then filter P (Set_of (=) xs) else Set_of (=) xs)"
    for P and xs :: "jsstring list"
    by (simp add: distinct_Set_of)
  show ?thesis
    unfolding tokenSetRatio_def Let_def
    using le [OF d1] by (auto simp: divide_le_eq_1)
qed

lemma companyNameRatio_eq:
  "companyNameRatio a b
     = (2/10) * ratio a b + (2/10) * partialRatio a b + (3/10) * tokenSortRatio a b
       + (3/10) * tokenSetRatio a b"
  by (simp add: companyNameRatio_def companyNameRatioWith_def defaultWeights_def js_def)

lemma handleSpecialCases_nonneg: "0 \<le> handleSpecialCases a b"
  by (simp add: handleSpecialCases_def abbreviationBonus_def Let_def)

text \<open>Claim C7. For every pair of strings, \<open>companyNameRatio\<close> and
  \<open>enhancedCompanyRatio\<close> are between 0 and 1, and the enhanced ratio is at least the
  base ratio.\<close>

theorem company_ratios_in_unit_interval:
  "0 \<le> companyNameRatio a b \<and> companyNameRatio a b \<le> 1
   \<and> 0 \<le> enhancedCompanyRatio a b \<and> enhancedCompanyRatio a b \<le> 1
   \<and> companyNameRatio a b \<le> enhancedCompanyRatio a b"
proof -
  have "0 \<le> companyNameRatio a b" "companyNameRatio a b \<le> 1"
    using ratio_bounds [of a b] partialRatio_bounds [of a b] tokenSortRatio_bounds [of a b]
      tokenSetRatio_bounds [of a b]
    by (simp_all add: companyNameRatio_eq)
  then show ?thesis
    using handleSpecialCases_nonneg [of a b]
    by (simp add: enhancedCompanyRatio_def Let_def)
qed

section \<open>Properties of the confidence scorer\<close>

lemma scorePatternMatch_le: "scorePatternMatch pm \<le> 1"
  by (simp add: scorePatternMatch_def Let_def)

lemma scorePatternMatch_ge: "0 \<le> orZero (pm_confidence pm) \<Longrightarrow> 0 \<le> scorePatternMatch pm"
  by (simp add: scorePatternMatch_def Let_def)

lemma scoreDOMContext_le: "scoreDOMContext dc \<le> 1"
  by (simp add: scoreDOMContext_def Let_def)

lemma scoreDOMContext_ge: "0 \<le> orZero (dc_confidence dc) \<Longrightarrow> 0 \<le> scoreDOMContext dc"
  by (simp add: scoreDOMContext_def Let_def split: option.splits)

lemma scoreNLPConfidence_le: "scoreNLPConfidence nc \<le> 1"
  by (simp add: scoreNLPConfidence_def Let_def split: option.splits list.splits)

lemma scoreNLPConfidence_ge: "0 \<le> orZero (nc_confidence nc) \<Longrightarrow> 0 \<le> scoreNLPConfidence nc"
  by (simp add: scoreNLPConfidence_def Let_def split: option.splits list.splits)

lemma splitSpacesFrom_nonempty: "splitSpacesFrom cur s \<noteq> []"
  by (induction cur s rule: splitSpacesFrom.induct) auto

lemma calculateSimilarity_bounds: "0 \<le> calculateSimilarity a b \<and> calculateSimilarity a b \<le> 1"
proof -
  define w1 where "w1 = Set_of (=) (splitSpaces (toLowerCase a))"
  define w2 where "w2 = Set_of (=) (splitSpaces (toLowerCase b))"
  have d: "distinct w1" by (simp add: w1_def distinct_Set_of)
  have "length (filter (\<lambda>x. x \<in> set w2) w1) \<le> length w1" by simp
  also have "\<dots> = card (set w1)" using d by (simp add: distinct_card)
  also have "\<dots> \<le> card (set (Set_of (=) (w1 @ w2)))"
    by (rule card_mono) (auto simp: set_Set_of)
  also have "\<dots> = length (Set_of (=) (w1 @ w2))"
    by (simp add: distinct_card distinct_Set_of)
  finally have le: "real (length (filter (\<lambda>x. x \<in> set w2) w1)) \<le> real (length (Set_of (=) (w1 @ w2)))"
    by (simp only: of_nat_le_iff)
  have "set w1 \<noteq> {}"
    using splitSpacesFrom_nonempty [of "[]" "toLowerCase a"]
    by (simp add: w1_def set_Set_of splitSpaces_def)
  then have "set (Set_of (=) (w1 @ w2)) \<noteq> {}" by (simp add: set_Set_of)
  then have "0 < real (length (Set_of (=) (w1 @ w2)))" by auto
  with le have "real (length (filter (\<lambda>x. x \<in> set w2) w1)) / real (length (Set_of (=) (w1 @ w2))) \<le> 1"
    by (simp only: divide_le_eq_1_pos)
  then show ?thesis
    by (simp add: calculateSimilarity_def Let_def w1_def w2_def)
qed

lemma fuzzyFold_bounds:
  "0 \<le> (b::real) \<Longrightarrow> b \<le> 1 \<Longrightarrow>
   0 \<le> foldl (\<lambda>bestScore (key, knownEntity).
              let similarity = calculateSimilarity t key in
              if similarity > 8/10 then max bestScore (similarity * (8/10)) else bestScore) b (m :: (jsstring \<times> knownCompany) list)
   \<and> foldl (\<lambda>bestScore (key, knownEntity).
              let similarity = calculateSimilarity t key in
              if similarity > 8/10 then max bestScore (similarity * (8/10)) else bestScore) b m \<le> 1"
proof (induction m arbitrary: b)
  case Nil
  then show ?case by simp
next
  case (Cons kv m)
  obtain k v where kv: "kv = (k, v)" by (cases kv)
  have "0 \<le> calculateSimilarity t k" "calculateSimilarity t k \<le> 1"
    using calculateSimilarity_bounds by simp_all
  then have "calculateSimilarity t k * (8/10) \<le> 1" "0 \<le> calculateSimilarity t k * (8/10)"
    by simp_all
  with Cons.prems have
    "0 \<le> (let similarity = calculateSimilarity t k in
           if similarity > 8/10 then max b (similarity * (8/10)) else b)"
    "(let similarity = calculateSimilarity t k in
           if similarity > 8/10 then max b (similarity * (8/10)) else b) \<le> 1"
    by (simp_all add: Let_def le_max_iff_disj)
  from Cons.IH [OF this] show ?case by (simp add: kv)
qed

lemma fuzzyMatchKnownEntity_bounds:
  "0 \<le> fuzzyMatchKnownEntity t \<and> fuzzyMatchKnownEntity t \<le> 1"
  unfolding fuzzyMatchKnownEntity_def by (rule fuzzyFold_bounds) simp_all

lemma scoreCrossReference_bounds:
  "0 \<le> scoreCrossReference en ctx \<and> scoreCrossReference en ctx \<le> 1"
  using fuzzyMatchKnownEntity_bounds
  by (simp add: scoreCrossReference_def Let_def split: option.splits)

lemma scoreContextConsistency_bounds:
  "0 \<le> scoreContextConsistency f ctx \<and> scoreContextConsistency f ctx \<le> 1"
  by (simp add: scoreContextConsistency_def Let_def split: option.splits list.splits)

lemma calculateWeightedScore_five:
  "calculateWeightedScore
     [(js ''patternMatch'', a), (js ''domContext'', b), (js ''nlpConfidence'', c),
      (js ''crossReference'', d), (js ''contextConsistency'', e)]
   = (25/100) * a + (20/100) * b + (25/100) * c + (15/100) * d + (15/100) * e"
  by (simp add: calculateWeightedScore_def scorerWeights_def js_def)


lemma score_calculateScore:
  "score (calculateScore th (Some f) ctx)
     = (25/100) * scorePatternMatch (v_patternMatch (validateFactors f))
       + (20/100) * scoreDOMContext (v_domContext (validateFactors f))
       + (25/100) * scoreNLPConfidence (v_nlpConfidence (validateFactors f))
       + (15/100) * scoreCrossReference (v_entity (validateFactors f)) ctx
       + (15/100) * scoreContextConsistency (validateFactors f) ctx"
  by (simp only: calculateScore_def Let_def option.case scoring.select_convs
      calculateWeightedScore_five)

lemma validated_confidences:
  "orZero (pm_confidence (v_patternMatch (validateFactors f))) = patternConfidence f"
  "orZero (dc_confidence (v_domContext (validateFactors f))) = domConfidence f"
  "orZero (nc_confidence (v_nlpConfidence (validateFactors f))) = nlpConfidenceOf f"
  by (simp_all add: validateFactors_def Let_def orZero_def patternConfidence_def
      domConfidence_def nlpConfidenceOf_def split: option.splits)

lemma determineConfidenceLevel_mono:
  "s1 \<le> s2 \<Longrightarrow>
   levelRank (determineConfidenceLevel th s1) \<le> levelRank (determineConfidenceLevel th s2)"
  by (simp add: determineConfidenceLevel_def)

text \<open>Claim C4, as the code has it. The score of \<open>calculateScore\<close> is at most 1, and it
  is at least 0 when the three confidences of the factors are not negative (each
  sub-score is cut at 1 from above only). The level of the result is
  \<open>determineConfidenceLevel\<close> of its score, which with the thresholds of the constructor
  has the cut points 0.85, 0.65 and 0.45 and is monotone for any thresholds. A factors
  argument that makes the scorer throw gives the score 0 with the level error.\<close>

theorem confidence_score_bounds_and_level:
  "score (calculateScore th (Some f) ctx) \<le> 1
   \<and> (0 \<le> patternConfidence f \<and> 0 \<le> domConfidence f \<and> 0 \<le> nlpConfidenceOf f
        \<longrightarrow> 0 \<le> score (calculateScore th (Some f) ctx))
   \<and> level (calculateScore th (Some f) ctx)
        = determineConfidenceLevel th (score (calculateScore th (Some f) ctx))
   \<and> score (calculateScore th None ctx) = 0 \<and> level (calculateScore th None ctx) = ErrorLevel
   \<and> determineConfidenceLevel defaultThresholds s
        = (if s \<ge> 85/100 then High else if s \<ge> 65/100 then Medium
           else if s \<ge> 45/100 then Low else Reject)
   \<and> (s1 \<le> s2 \<longrightarrow>
        levelRank (determineConfidenceLevel th s1) \<le> levelRank (determineConfidenceLevel th s2))"
proof -
  let ?v = "validateFactors f"
  have up: "score (calculateScore th (Some f) ctx) \<le> 1"
    using scorePatternMatch_le [of "v_patternMatch ?v"] scoreDOMContext_le [of "v_domContext ?v"]
      scoreNLPConfidence_le [of "v_nlpConfidence ?v"]
      scoreCrossReference_bounds [of "v_entity ?v" ctx] scoreContextConsistency_bounds [of ?v ctx]
    by (simp only: score_calculateScore) linarith
  have lo: "0 \<le> score (calculateScore th (Some f) ctx)"
    if "0 \<le> patternConfidence f" "0 \<le> domConfidence f" "0 \<le> nlpConfidenceOf f"
  proof -
    have "0 \<le> scorePatternMatch (v_patternMatch ?v)"
      using that(1) by (intro scorePatternMatch_ge) (simp add: validated_confidences)
    moreover have "0 \<le> scoreDOMContext (v_domContext ?v)"
      using that(2) by (intro scoreDOMContext_ge) (simp add: validated_confidences)
    moreover have "0 \<le> scoreNLPConfidence (v_nlpConfidence ?v)"
      using that(3) by (intro scoreNLPConfidence_ge) (simp add: validated_confidences)
    ultimately show ?thesis
      using scoreCrossReference_bounds [of "v_entity ?v" ctx]
        scoreContextConsistency_bounds [of ?v ctx]
      by (simp only: score_calculateScore) linarith
  qed
  have lv: "level (calculateScore th (Some f) ctx)
        = determineConfidenceLevel th (score (calculateScore th (Some f) ctx))"
    by (simp add: calculateScore_def Let_def)
  have er: "score (calculateScore th None ctx) = 0" "level (calculateScore th None ctx) = ErrorLevel"
    by (simp_all add: calculateScore_def)
  have cut: "determineConfidenceLevel defaultThresholds s
        = (if s \<ge> 85/100 then High else if s \<ge> 65/100 then Medium
           else if s \<ge> 45/100 then Low else Reject)"
    by (simp add: determineConfidenceLevel_def defaultThresholds_def)
  from up lo lv er cut determineConfidenceLevel_mono show ?thesis by blast
qed

text \<open>With a pattern-match confidence of -10 the score is negative.\<close>

theorem confidence_score_negative_counterexample:
  "score (calculateScore defaultThresholds (Some negativeFactors) \<lparr>industry = None\<rparr>) < 0"
proof -
  let ?v = "validateFactors negativeFactors"
  let ?ctx = "\<lparr>industry = None\<rparr>"
  have "scorePatternMatch (v_patternMatch ?v) = -10"
    by (simp add: validateFactors_def negativeFactors_def scorePatternMatch_def orZero_def Let_def)
  moreover have "scoreDOMContext (v_domContext ?v) = 0"
    by (simp add: validateFactors_def negativeFactors_def scoreDOMContext_def orZero_def Let_def)
  moreover have "scoreNLPConfidence (v_nlpConfidence ?v) = 0"
    by (simp add: validateFactors_def negativeFactors_def scoreNLPConfidence_def orZero_def Let_def)
  ultimately show ?thesis
    using scoreCrossReference_bounds [of "v_entity ?v" ?ctx]
      scoreContextConsistency_bounds [of ?v ?ctx]
    by (simp only: score_calculateScore) linarith
qed

text \<open>The theorem at the factors of a ticker in a headline and at the scores 0.5 and
  0.9.\<close>

theorem confidence_score_witness:
  "0 \<le> patternConfidence tickerFactors \<and> 0 \<le> domConfidence tickerFactors
   \<and> 0 \<le> nlpConfidenceOf tickerFactors
   \<and> 0 \<le> score (calculateScore defaultThresholds (Some tickerFactors) \<lparr>industry = None\<rparr>)
   \<and> score (calculateScore defaultThresholds (Some tickerFactors) \<lparr>industry = None\<rparr>) \<le> 1
   \<and> (1/2 :: real) \<le> 9/10
   \<and> levelRank (determineConfidenceLevel defaultThresholds (1/2))
        \<le> levelRank (determineConfidenceLevel defaultThresholds (9/10))
   \<and> determineConfidenceLevel defaultThresholds (1/2) = Low
   \<and> determineConfidenceLevel defaultThresholds (9/10) = High"
  using confidence_score_bounds_and_level
    [of defaultThresholds tickerFactors "\<lparr>industry = None\<rparr>" "1/2" "1/2" "9/10"]
    confidence_score_bounds_and_level
    [of defaultThresholds tickerFactors "\<lparr>industry = None\<rparr>" "9/10" "1/2" "9/10"]
  by (simp add: patternConfidence_def domConfidence_def nlpConfidenceOf_def tickerFactors_def
      orZero_def)

section \<open>Properties of the normalizer\<close>

lemma matchesLiteral_canon:
  "matchesLiteral s alt = startsWith (map canonicalize s) (map canonicalize alt)"
  by (induction s alt rule: matchesLiteral.induct) simp_all

lemma set_sortBy: "set (sortBy cmp xs) = set xs"
  using mset_sortBy [of cmp xs] by (metis set_mset_mset)

lemma sortBy_length_sorted:
  "sorted_wrt (\<lambda>a b. length b \<le> length a)
     (sortBy (\<lambda>a b. real (length b) - real (length a)) (xs :: 'a list list))"
  by (rule sortBy_sorted) auto

lemma find_sortBy_longest:
  fixes xs :: "'a list list"
  assumes "find P (sortBy (\<lambda>a b. real (length b) - real (length a)) xs) = Some y"
  shows "P y \<and> y \<in> set xs \<and> (\<forall>z \<in> set xs. P z \<longrightarrow> length z \<le> length y)"
proof -
  let ?ys = "sortBy (\<lambda>a b. real (length b) - real (length a)) xs"
  from assms obtain i where i: "i < length ?ys" "P (?ys ! i)" "y = ?ys ! i"
    "\<forall>j<i. \<not> P (?ys ! j)"
    by (auto simp: find_Some_iff)
  have "length z \<le> length y" if "z \<in> set xs" "P z" for z
  proof -
    from that(1) have "z \<in> set ?ys" by (simp only: set_sortBy)
    then obtain k where k: "k < length ?ys" "z = ?ys ! k"
      by (auto simp: in_set_conv_nth)
    with that(2) i(4) have "\<not> k < i" by auto
    then consider "k = i" | "i < k" by linarith
    then show ?thesis
    proof cases
      case 1
      with k i show ?thesis by simp
    next
      case 2
      with sortBy_length_sorted [of xs] k(1) have "length (?ys ! k) \<le> length (?ys ! i)"
        by (simp add: sorted_wrt_iff_nth_less)
      with k i show ?thesis by simp
    qed
  qed
  moreover from i have "y \<in> set xs" by (metis nth_mem set_sortBy)
  ultimately show ?thesis using i by blast
qed

lemma foldl_maxLen:
  fixes xs :: "'a list list"
  shows "b \<le> foldl (\<lambda>best alt. if P alt then max best (length alt) else best) b xs
    \<and> (\<forall>x \<in> set xs. P x \<longrightarrow>
          length x \<le> foldl (\<lambda>best alt. if P alt then max best (length alt) else best) b xs)
    \<and> (foldl (\<lambda>best alt. if P alt then max best (length alt) else best) b xs = b
        \<or> (\<exists>x \<in> set xs. P x
              \<and> length x = foldl (\<lambda>best alt. if P alt then max best (length alt) else best) b xs))"
proof (induction xs arbitrary: b)
  case Nil
  show ?case by simp
next
  case (Cons x xs)
  let ?b = "if P x then max b (length x) else b"
  let ?m = "foldl (\<lambda>best alt. if P alt then max best (length alt) else best) ?b xs"
  from Cons.IH [of ?b] have ih: "?b \<le> ?m" "\<forall>z \<in> set xs. P z \<longrightarrow> length z \<le> ?m"
    "?m = ?b \<or> (\<exists>z \<in> set xs. P z \<and> length z = ?m)" by blast+
  have m: "foldl (\<lambda>best alt. if P alt then max best (length alt) else best) b (x # xs) = ?m"
    by simp
  have 1: "b \<le> ?m" using ih(1) by (auto split: if_splits)
  have 2: "\<forall>z \<in> set (x # xs). P z \<longrightarrow> length z \<le> ?m"
    using ih(1,2) by (auto split: if_splits)
  have 3: "?m = b \<or> (\<exists>z \<in> set (x # xs). P z \<and> length z = ?m)"
    using ih(3) by (auto simp: max_def split: if_splits)
  from 1 2 3 show ?case unfolding m by blast
qed

lemma longestMatch_canonTable:
  "longestMatch s canonTable
     = foldl (\<lambda>best alt.
          if matchesLiteral s alt \<and> wordBoundary (charAt s (length alt - 1)) (charAt s (length alt))
          then max best (length alt) else best) 0 allSuffixes"
  by (simp add: longestMatch_def canonTable_def foldl_map matchesLiteral_canon)

lemma canonTable_eq:
  "canonTable =
     [(3, [73, 78, 67]), (4, [73, 78, 67, 46]),
      (12, [73, 78, 67, 79, 82, 80, 79, 82, 65, 84, 69, 68]), (4, [67, 79, 82, 80]),
      (5, [67, 79, 82, 80, 46]), (11, [67, 79, 82, 80, 79, 82, 65, 84, 73, 79, 78]),
      (2, [67, 79]), (3, [67, 79, 46]), (7, [67, 79, 77, 80, 65, 78, 89]), (3, [76, 76, 67]),
      (6, [76, 46, 76, 46, 67, 46]),
      (25, [76, 73, 77, 73, 84, 69, 68, 32, 76, 73, 65, 66, 73, 76, 73, 84, 89, 32, 67, 79, 77, 80, 65, 78, 89]),
      (2, [76, 80]), (4, [76, 46, 80, 46]),
      (19, [76, 73, 77, 73, 84, 69, 68, 32, 80, 65, 82, 84, 78, 69, 82, 83, 72, 73, 80]),
      (3, [76, 76, 80]), (6, [76, 46, 76, 46, 80, 46]),
      (29, [76, 73, 77, 73, 84, 69, 68, 32, 76, 73, 65, 66, 73, 76, 73, 84, 89, 32, 80, 65, 82, 84, 78, 69, 82, 83, 72, 73, 80]),
      (3, [76, 84, 68]), (4, [76, 84, 68, 46]), (7, [76, 73, 77, 73, 84, 69, 68]),
      (2, [80, 67]), (4, [80, 46, 67, 46]),
      (24, [80, 82, 79, 70, 69, 83, 83, 73, 79, 78, 65, 76, 32, 67, 79, 82, 80, 79, 82, 65, 84, 73, 79, 78]),
      (2, [80, 65]), (4, [80, 46, 65, 46]),
      (24, [80, 82, 79, 70, 69, 83, 83, 73, 79, 78, 65, 76, 32, 65, 83, 83, 79, 67, 73, 65, 84, 73, 79, 78]),
      (4, [80, 76, 76, 67]), (8, [80, 46, 76, 46, 76, 46, 67, 46]),
      (38, [80, 82, 79, 70, 69, 83, 83, 73, 79, 78, 65, 76, 32, 76, 73, 77, 73, 84, 69, 68, 32, 76, 73, 65, 66, 73, 76, 73, 84, 89, 32, 67, 79, 77, 80, 65, 78, 89]),
      (3, [76, 84, 68]), (4, [76, 84, 68, 46]), (7, [76, 73, 77, 73, 84, 69, 68]),
      (3, [80, 76, 67]), (6, [80, 46, 76, 46, 67, 46]),
      (22, [80, 85, 66, 76, 73, 67, 32, 76, 73, 77, 73, 84, 69, 68, 32, 67, 79, 77, 80, 65, 78, 89]),
      (3, [76, 76, 80]), (6, [76, 46, 76, 46, 80, 46]),
      (29, [76, 73, 77, 73, 84, 69, 68, 32, 76, 73, 65, 66, 73, 76, 73, 84, 89, 32, 80, 65, 82, 84, 78, 69, 82, 83, 72, 73, 80]),
      (2, [65, 71]), (4, [65, 46, 71, 46]),
      (18, [65, 75, 84, 73, 69, 78, 71, 69, 83, 69, 76, 76, 83, 67, 72, 65, 70, 84]),
      (4, [71, 77, 66, 72]), (8, [71, 46, 77, 46, 66, 46, 72, 46]),
      (37, [71, 69, 83, 69, 76, 76, 83, 67, 72, 65, 70, 84, 32, 77, 73, 84, 32, 66, 69, 83, 67, 72, 82, 196, 78, 75, 84, 69, 82, 32, 72, 65, 70, 84, 85, 78, 71]),
      (2, [83, 65]), (4, [83, 46, 65, 46]),
      (15, [83, 79, 67, 73, 201, 84, 201, 32, 65, 78, 79, 78, 89, 77, 69]),
      (4, [83, 65, 82, 76]), (8, [83, 46, 65, 46, 82, 46, 76, 46]),
      (32, [83, 79, 67, 73, 201, 84, 201, 32, 192, 32, 82, 69, 83, 80, 79, 78, 83, 65, 66, 73, 76, 73, 84, 201, 32, 76, 73, 77, 73, 84, 201, 69]),
      (2, [66, 86]), (4, [66, 46, 86, 46]),
      (21, [66, 69, 83, 76, 79, 84, 69, 78, 32, 86, 69, 78, 78, 79, 79, 84, 83, 67, 72, 65, 80]),
      (2, [78, 86]), (4, [78, 46, 86, 46]),
      (21, [78, 65, 65, 77, 76, 79, 90, 69, 32, 86, 69, 78, 78, 79, 79, 84, 83, 67, 72, 65, 80]),
      (3, [83, 80, 65]), (6, [83, 46, 80, 46, 65, 46]),
      (18, [83, 79, 67, 73, 69, 84, 192, 32, 80, 69, 82, 32, 65, 90, 73, 79, 78, 73]),
      (2, [65, 66]), (4, [65, 46, 66, 46]), (10, [65, 75, 84, 73, 69, 66, 79, 76, 65, 71]),
      (2, [65, 83]), (4, [65, 46, 83, 46]),
      (12, [65, 75, 83, 74, 69, 83, 69, 76, 83, 75, 65, 80]), (2, [79, 89]), (3, [79, 89, 74]),
      (2, [75, 75]), (4, [75, 46, 75, 46]),
      (16, [75, 65, 66, 85, 83, 72, 73, 75, 73, 32, 75, 65, 73, 83, 72, 65]),
      (4, [26666, 24335, 20250, 31038]), (2, [89, 75]), (4, [89, 46, 75, 46]),
      (12, [89, 85, 71, 69, 78, 32, 75, 65, 73, 83, 72, 65]),
      (4, [26377, 38480, 20250, 31038]), (7, [80, 84, 69, 32, 76, 84, 68]),
      (9, [80, 84, 69, 46, 32, 76, 84, 68, 46]),
      (15, [80, 82, 73, 86, 65, 84, 69, 32, 76, 73, 77, 73, 84, 69, 68]),
      (7, [83, 68, 78, 32, 66, 72, 68]), (9, [83, 68, 78, 46, 32, 66, 72, 68, 46]),
      (16, [83, 69, 78, 68, 73, 82, 73, 65, 78, 32, 66, 69, 82, 72, 65, 68]),
      (9, [67, 79, 46, 44, 32, 76, 84, 68, 46]), (4, [26377, 38480, 20844, 21496]),
      (6, [32929, 20221, 26377, 38480, 20844, 21496]), (5, [71, 82, 79, 85, 80]),
      (6, [71, 82, 79, 85, 80, 83]), (8, [72, 79, 76, 68, 73, 78, 71, 83]),
      (7, [72, 79, 76, 68, 73, 78, 71]),
      (13, [73, 78, 84, 69, 82, 78, 65, 84, 73, 79, 78, 65, 76]), (4, [73, 78, 84, 76]),
      (5, [73, 78, 84, 76, 46]), (6, [71, 76, 79, 66, 65, 76]),
      (9, [87, 79, 82, 76, 68, 87, 73, 68, 69]), (8, [80, 65, 82, 84, 78, 69, 82, 83]),
      (10, [65, 83, 83, 79, 67, 73, 65, 84, 69, 83]),
      (11, [69, 78, 84, 69, 82, 80, 82, 73, 83, 69, 83]),
      (8, [86, 69, 78, 84, 85, 82, 69, 83]),
      (12, [84, 69, 67, 72, 78, 79, 76, 79, 71, 73, 69, 83]), (4, [84, 69, 67, 72]),
      (9, [83, 79, 76, 85, 84, 73, 79, 78, 83]), (8, [83, 69, 82, 86, 73, 67, 69, 83]),
      (7, [83, 89, 83, 84, 69, 77, 83]), (10, [73, 78, 68, 85, 83, 84, 82, 73, 69, 83])]"
  by (simp add: canonTable_def allSuffixes_def suffixesUS_def suffixesUK_def suffixesEurope_def
      suffixesAsia_def suffixesOther_def js_def canonicalize_def upperUnit_def)

lemma allSuffixes_nonempty: "alt \<in> set allSuffixes \<Longrightarrow> 0 < length alt"
proof -
  have "list_all (\<lambda>(n, ca). 0 < n) canonTable"
    by (simp add: canonTable_eq)
  then show "alt \<in> set allSuffixes \<Longrightarrow> 0 < length alt"
    by (auto simp: canonTable_def list_all_iff)
qed

text \<open>The match that the pattern finds at a position is the longest suffix that matches
  there with its word boundaries.\<close>

lemma suffixMatchAt_eval:
  "suffixMatchAt before s =
     (if wordBoundary before (charAt s 0) then
        (if longestMatch s canonTable = 0 then None else Some (longestMatch s canonTable))
      else None)"
proof (cases "wordBoundary before (charAt s 0)")
  case False
  then show ?thesis by (simp add: suffixMatchAt_def)
next
  case True
  let ?P = "\<lambda>alt. matchesLiteral s alt
      \<and> wordBoundary (charAt s (length alt - 1)) (charAt s (length alt))"
  let ?m = "foldl (\<lambda>best alt. if ?P alt then max best (length alt) else best) 0 allSuffixes"
  have m: "longestMatch s canonTable = ?m" by (rule longestMatch_canonTable)
  note fm = foldl_maxLen [of 0 ?P allSuffixes]
  show ?thesis
  proof (cases "find ?P sortedSuffixes")
    case None
    then have "\<forall>x \<in> set allSuffixes. \<not> ?P x"
      by (simp only: find_None_iff sortedSuffixes_def set_sortBy) blast
    with fm have "?m = 0" by blast
    with None True m show ?thesis by (simp add: suffixMatchAt_def)
  next
    case (Some y)
    then have y: "?P y" "y \<in> set allSuffixes"
      "\<forall>z \<in> set allSuffixes. ?P z \<longrightarrow> length z \<le> length y"
      using find_sortBy_longest [of ?P allSuffixes y] unfolding sortedSuffixes_def by blast+
    from y(2) have pos: "0 < length y" by (rule allSuffixes_nonempty)
    from fm y(1,2) have "length y \<le> ?m" by blast
    moreover from fm y(3) have "?m = 0 \<or> ?m \<le> length y" by auto
    ultimately have "?m = length y" using pos by linarith
    with Some True m pos show ?thesis by (simp add: suffixMatchAt_def)
  qed
qed

lemmas normalize_eval =
  normalize_def cleanName_def expandAbbreviation_def matchedAbbreviation_def abbreviations_def suffixMatchAt_eval
  longestMatch_def canonTable_eq wordBoundary_def isWord_def charAt_def isWordChar_def
  canonicalize_def upperUnit_def toLowerCase_def lowerUnit_def trim_def isSpace_def js_def

text \<open>\<open>normalize\<close> at the expansions of the abbreviation table.\<close>

lemma normalize_IBM: "normalize (js ''IBM'') = js ''International Business Machines''"
  by (simp add: normalize_eval)

lemma normalize_IBM_expansion:
  "normalize (js ''International Business Machines'') = js ''Business Machines''"
  by (simp add: normalize_eval)

lemma normalize_HSBC_expansion:
  "normalize (js ''Hongkong and Shanghai Banking Corporation'') = js ''Hongkong and Shanghai Banking''"
  by (simp add: normalize_eval)

lemma normalize_expansion_fixed:
  "normalize (js ''General Motors'') = js ''General Motors''"
    "normalize (js ''General Electric'') = js ''General Electric''"
    "normalize (js ''Procter & Gamble'') = js ''Procter & Gamble''"
    "normalize (js ''Johnson & Johnson'') = js ''Johnson & Johnson''"
    "normalize (js ''American Telephone & Telegraph'') = js ''American Telephone & Telegraph''"
    "normalize (js ''United Parcel Service'') = js ''United Parcel Service''"
    "normalize (js ''Federal Express'') = js ''Federal Express''"
    "normalize (js ''Bayerische Motoren Werke'') = js ''Bayerische Motoren Werke''"
    "normalize (js ''Klynveld Peat Marwick Goerdeler'') = js ''Klynveld Peat Marwick Goerdeler''"
    "normalize (js ''PricewaterhouseCoopers'') = js ''PricewaterhouseCoopers''"
    "normalize (js ''Ernst & Young'') = js ''Ernst & Young''"
    "normalize (js ''Consumer Value Stores'') = js ''Consumer Value Stores''"
    "normalize (js ''Ingvar Kamprad Elmtaryd Agunnaryd'') = js ''Ingvar Kamprad Elmtaryd Agunnaryd''"
  by (simp_all add: normalize_eval)

text \<open>The steps of \<open>normalize\<close> add no code unit other than the space and make no
  text longer; dropping a suffix makes it shorter.\<close>

lemma length_removeSuffixes: "length (removeSuffixes b s) \<le> length s"
proof (induction b s rule: removeSuffixes.induct)
  case (1 before)
  show ?case by simp
next
  case (2 before c cs)
  show ?case
  proof (cases "suffixMatchAt before (c # cs)")
    case None
    with 2(1) show ?thesis by simp
  next
    case (Some n)
    with 2(2) [OF Some] have "length (removeSuffixes before (c # cs)) \<le> length (drop (n - 1) cs)"
      by simp
    then show ?thesis by simp
  qed
qed

lemma removeSuffixes_shorter:
  "removeSuffixes b s \<noteq> s \<Longrightarrow> length (removeSuffixes b s) < length s"
proof (induction b s rule: removeSuffixes.induct)
  case (1 before)
  then show ?case by simp
next
  case (2 before c cs)
  show ?case
  proof (cases "suffixMatchAt before (c # cs)")
    case None
    with 2(1,3) show ?thesis by simp
  next
    case (Some n)
    have "length (removeSuffixes (charAt (c # cs) (n - 1)) (drop (n - 1) cs)) \<le> length (drop (n - 1) cs)"
      by (rule length_removeSuffixes)
    with Some show ?thesis by simp
  qed
qed

lemma set_removeSuffixes: "set (removeSuffixes b s) \<subseteq> set s"
proof (induction b s rule: removeSuffixes.induct)
  case (1 before)
  show ?case by simp
next
  case (2 before c cs)
  show ?case
  proof (cases "suffixMatchAt before (c # cs)")
    case None
    with 2(1) show ?thesis by auto
  next
    case (Some n)
    with 2(2) [OF Some] have "set (removeSuffixes before (c # cs)) \<subseteq> set (drop (n - 1) cs)"
      by simp
    then show ?thesis using set_drop_subset [of "n - 1" cs] by auto
  qed
qed

lemma length_collapseSpaces: "length (collapseSpaces s) \<le> length s"
proof (induction s rule: collapseSpaces.induct)
  case 1
  show ?case by simp
next
  case (2 c cs)
  show ?case
  proof (cases "isSpace c")
    case True
    with 2(1) have "length (collapseSpaces (dropWhile isSpace cs)) \<le> length (dropWhile isSpace cs)"
      by simp
    also have "\<dots> \<le> length cs" by (rule length_dropWhile_le)
    finally show ?thesis using True by simp
  next
    case False
    with 2(2) show ?thesis by simp
  qed
qed

lemma set_collapseSpaces: "set (collapseSpaces s) \<subseteq> insert 32 (set s)"
proof (induction s rule: collapseSpaces.induct)
  case 1
  show ?case by simp
next
  case (2 c cs)
  show ?case
  proof (cases "isSpace c")
    case True
    with 2(1) have "set (collapseSpaces (dropWhile isSpace cs)) \<subseteq> insert 32 (set (dropWhile isSpace cs))"
      by simp
    moreover have "set (dropWhile isSpace cs) \<subseteq> set cs" by (rule set_dropWhileD [THEN subsetI])
    ultimately show ?thesis using True by auto
  next
    case False
    with 2(2) show ?thesis by auto
  qed
qed

lemma length_trim: "length (trim s) \<le> length s"
proof -
  have "length (trim s) \<le> length (dropWhile isSpace s)"
    unfolding trim_def using length_dropWhile_le [of isSpace "rev (dropWhile isSpace s)"] by simp
  also have "\<dots> \<le> length s" by (rule length_dropWhile_le)
  finally show ?thesis .
qed

lemma set_trim: "set (trim s) \<subseteq> set s"
  unfolding trim_def by (auto dest!: set_dropWhileD)


lemma collapseSpaces_fix_Cons:
  "collapseSpaces (c # cs) = c # cs \<longleftrightarrow>
     (if isSpace c then c = 32 \<and> (cs = [] \<or> \<not> isSpace (hd cs)) \<and> collapseSpaces cs = cs
      else collapseSpaces cs = cs)"
proof (cases "isSpace c")
  case False
  then show ?thesis by simp
next
  case True
  show ?thesis
  proof
    assume "collapseSpaces (c # cs) = c # cs"
    with True have c: "c = 32" and eq: "collapseSpaces (dropWhile isSpace cs) = cs" by simp_all
    have "length cs \<le> length (dropWhile isSpace cs)"
      using length_collapseSpaces [of "dropWhile isSpace cs"] eq by simp
    then have d: "dropWhile isSpace cs = cs"
      by (cases cs) (auto simp: le_Suc_eq dest: order_trans [OF _ length_dropWhile_le] split: if_splits)
    then have "cs = [] \<or> \<not> isSpace (hd cs)" by (simp add: dropWhile_eq_self_iff)
    with c d eq True show "if isSpace c then c = 32 \<and> (cs = [] \<or> \<not> isSpace (hd cs)) \<and> collapseSpaces cs = cs
      else collapseSpaces cs = cs" by simp
  next
    assume "if isSpace c then c = 32 \<and> (cs = [] \<or> \<not> isSpace (hd cs)) \<and> collapseSpaces cs = cs
      else collapseSpaces cs = cs"
    with True have c: "c = 32" and h: "cs = [] \<or> \<not> isSpace (hd cs)" and f: "collapseSpaces cs = cs"
      by simp_all
    from h have "dropWhile isSpace cs = cs" by (simp add: dropWhile_eq_self_iff)
    with c f True show "collapseSpaces (c # cs) = c # cs" by simp
  qed
qed

lemma collapseSpaces_fix_suffix:
  "collapseSpaces (a @ b) = a @ b \<Longrightarrow> collapseSpaces b = b"
proof (induction a)
  case Nil
  then show ?case by simp
next
  case (Cons c a)
  from Cons.prems have "collapseSpaces (a @ b) = a @ b"
    by (simp only: append_Cons collapseSpaces_fix_Cons split: if_splits)
  then show ?case by (rule Cons.IH)
qed

lemma collapseSpaces_fix_prefix:
  "collapseSpaces (a @ b) = a @ b \<Longrightarrow> collapseSpaces a = a"
proof (induction a)
  case Nil
  show ?case by simp
next
  case (Cons c a)
  from Cons.prems have p: "if isSpace c then c = 32 \<and> (a @ b = [] \<or> \<not> isSpace (hd (a @ b)))
      \<and> collapseSpaces (a @ b) = a @ b else collapseSpaces (a @ b) = a @ b"
    by (simp only: append_Cons collapseSpaces_fix_Cons)
  then have "collapseSpaces (a @ b) = a @ b" by (simp split: if_splits)
  then have f: "collapseSpaces a = a" by (rule Cons.IH)
  show ?case
  proof (cases "isSpace c")
    case False
    with f show ?thesis by (simp only: collapseSpaces_fix_Cons if_False)
  next
    case True
    with p have "c = 32" and "a @ b = [] \<or> \<not> isSpace (hd (a @ b))" by simp_all
    then have "c = 32" and "a = [] \<or> \<not> isSpace (hd a)" by (cases a; simp)+
    with f True show ?thesis by (simp only: collapseSpaces_fix_Cons if_True simp_thms)
  qed
qed

lemma trim_prefix: "\<exists>b. s = rev (dropWhile P (rev s)) @ b"
proof -
  have "s = rev (dropWhile P (rev s)) @ rev (takeWhile P (rev s))"
    by (metis rev_append rev_rev_ident takeWhile_dropWhile_id)
  then show ?thesis ..
qed

lemma collapseSpaces_trim:
  assumes "collapseSpaces s = s"
  shows "collapseSpaces (trim s) = trim s"
proof -
  have "s = takeWhile isSpace s @ dropWhile isSpace s" by simp
  with assms have "collapseSpaces (takeWhile isSpace s @ dropWhile isSpace s)
      = takeWhile isSpace s @ dropWhile isSpace s" by simp
  then have d: "collapseSpaces (dropWhile isSpace s) = dropWhile isSpace s"
    by (rule collapseSpaces_fix_suffix)
  obtain b where b: "dropWhile isSpace s = trim s @ b"
    using trim_prefix [of "dropWhile isSpace s" isSpace] unfolding trim_def by blast
  from d have "collapseSpaces (trim s @ b) = trim s @ b" by (simp only: b [symmetric])
  then show ?thesis by (rule collapseSpaces_fix_prefix)
qed

lemma collapseSpaces_idem: "collapseSpaces (collapseSpaces s) = collapseSpaces s"
proof (induction s rule: collapseSpaces.induct)
  case 1
  show ?case by simp
next
  case (2 c cs)
  show ?case
  proof (cases "isSpace c")
    case False
    with 2(2) show ?thesis by simp
  next
    case True
    let ?t = "dropWhile isSpace cs"
    from True 2(1) have ih: "collapseSpaces (collapseSpaces ?t) = collapseSpaces ?t" by simp
    have h: "collapseSpaces ?t = [] \<or> \<not> isSpace (hd (collapseSpaces ?t))"
    proof (cases ?t)
      case Nil
      show ?thesis unfolding Nil by simp
    next
      case (Cons d ds)
      then have "\<not> isSpace d" using hd_dropWhile [of isSpace cs] by simp
      with Cons show ?thesis by simp
    qed
    have s32: "isSpace 32" by (simp add: isSpace_def)
    have "collapseSpaces (32 # collapseSpaces ?t) = 32 # collapseSpaces ?t"
      using h ih s32 by (simp only: collapseSpaces_fix_Cons if_True simp_thms)
    with True show ?thesis by simp
  qed
qed

lemma trim_idem: "trim (trim s) = trim s"
proof -
  let ?d = "dropWhile isSpace s"
  let ?w = "dropWhile isSpace (rev ?d)"
  have t: "trim s = rev ?w" by (simp add: trim_def)
  have 1: "dropWhile isSpace (rev ?w) = rev ?w"
  proof (cases "?w = []")
    case True
    show ?thesis unfolding True by simp
  next
    case False
    have "rev ?d = takeWhile isSpace (rev ?d) @ ?w" by simp
    then have "last (rev ?d) = last ?w" using False by (metis last_appendR)
    moreover have "?d \<noteq> []"
    proof
      assume e: "?d = []"
      have "?w = []" unfolding e by simp
      with False show False ..
    qed
    ultimately have "hd ?d = last ?w" by (simp add: last_rev)
    moreover have "\<not> isSpace (hd ?d)" using \<open>?d \<noteq> []\<close> by (rule hd_dropWhile)
    ultimately have "\<not> isSpace (hd (rev ?w))" using False by (simp add: hd_rev)
    then show ?thesis by (simp add: dropWhile_eq_self_iff)
  qed
  have "trim (trim s) = rev (dropWhile isSpace (rev (dropWhile isSpace (rev ?w))))"
    by (simp only: t trim_def)
  also have "\<dots> = rev (dropWhile isSpace ?w)" by (simp only: 1 rev_rev_ident)
  also have "\<dots> = rev ?w" by (simp only: dropWhile_idem)
  finally show ?thesis by (simp only: t)
qed

lemma cleanName_no_punctuation:
  "filter (\<lambda>c. c \<noteq> 44 \<and> c \<noteq> 59) (cleanName x) = cleanName x"
proof -
  let ?f = "filter (\<lambda>c. c \<noteq> 44 \<and> c \<noteq> 59) x"
  have "set (cleanName x) \<subseteq> insert 32 (set ?f)"
    unfolding cleanName_def
    using set_trim [of "collapseSpaces (removeSuffixes None ?f)"]
      set_collapseSpaces [of "removeSuffixes None ?f"] set_removeSuffixes [of None ?f]
    by blast
  then have "\<forall>c \<in> set (cleanName x). c \<noteq> 44 \<and> c \<noteq> 59" by auto
  then show ?thesis by (simp only: filter_True)
qed

lemma cleanName_tidy:
  "collapseSpaces (cleanName x) = cleanName x" "trim (cleanName x) = cleanName x"
  unfolding cleanName_def
  by (simp_all only: collapseSpaces_trim [OF collapseSpaces_idem] trim_idem)

lemma cleanName_again:
  "cleanName (cleanName x) = trim (collapseSpaces (removeSuffixes None (cleanName x)))"
  by (subst cleanName_def) (simp only: cleanName_no_punctuation)

lemma cleanName_fixed:
  "removeSuffixes None (cleanName x) = cleanName x \<Longrightarrow> cleanName (cleanName x) = cleanName x"
  by (simp only: cleanName_again cleanName_tidy)

lemma cleanName_shorter:
  assumes "removeSuffixes None (cleanName x) \<noteq> cleanName x"
  shows "length (cleanName (cleanName x)) < length (cleanName x)"
proof -
  let ?r = "removeSuffixes None (cleanName x)"
  have "length (cleanName (cleanName x)) \<le> length (collapseSpaces ?r)"
    by (simp only: cleanName_again length_trim)
  also have "\<dots> \<le> length ?r" by (rule length_collapseSpaces)
  also have "\<dots> < length (cleanName x)" using assms by (rule removeSuffixes_shorter)
  finally show ?thesis .
qed

lemma abbreviation_cases:
  assumes "matchedAbbreviation c = Some (abbr, full)"
  shows "(abbr, full) \<in> set abbreviations"
  using assms unfolding matchedAbbreviation_def by (auto simp: find_Some_iff dest: nth_mem)

text \<open>The expansions of the abbreviation table: \<open>normalize\<close> leaves an expansion as it
  is exactly when the pattern finds no suffix in it, which is so for all keys but
  \<open>IBM\<close> and \<open>HSBC\<close>.\<close>

lemma js_inject: "(js a = js b) = (a = b)"
proof -
  have "inj (of_char :: char \<Rightarrow> nat)" by (rule injI) simp
  then show ?thesis by (simp add: js_def inj_map_eq_map)
qed

lemma removeSuffixes_expansions:
  "removeSuffixes None (js ''International Business Machines'') = js '' Business Machines''"
  "removeSuffixes None (js ''General Motors'') = js ''General Motors''"
  "removeSuffixes None (js ''General Electric'') = js ''General Electric''"
  "removeSuffixes None (js ''Procter & Gamble'') = js ''Procter & Gamble''"
  "removeSuffixes None (js ''Johnson & Johnson'') = js ''Johnson & Johnson''"
  "removeSuffixes None (js ''American Telephone & Telegraph'') = js ''American Telephone & Telegraph''"
  "removeSuffixes None (js ''United Parcel Service'') = js ''United Parcel Service''"
  "removeSuffixes None (js ''Federal Express'') = js ''Federal Express''"
  "removeSuffixes None (js ''Bayerische Motoren Werke'') = js ''Bayerische Motoren Werke''"
  "removeSuffixes None (js ''Hongkong and Shanghai Banking Corporation'') = js ''Hongkong and Shanghai Banking ''"
  "removeSuffixes None (js ''Klynveld Peat Marwick Goerdeler'') = js ''Klynveld Peat Marwick Goerdeler''"
  "removeSuffixes None (js ''PricewaterhouseCoopers'') = js ''PricewaterhouseCoopers''"
  "removeSuffixes None (js ''Ernst & Young'') = js ''Ernst & Young''"
  "removeSuffixes None (js ''Consumer Value Stores'') = js ''Consumer Value Stores''"
  "removeSuffixes None (js ''Ingvar Kamprad Elmtaryd Agunnaryd'') = js ''Ingvar Kamprad Elmtaryd Agunnaryd''"
  by (simp_all add: normalize_eval)

lemma expansion_table:
  "list_all (\<lambda>(abbr, full).
       ((normalize full = full) = (removeSuffixes None full = full))
     \<and> ((normalize full = full) = (abbr \<noteq> js ''IBM'' \<and> abbr \<noteq> js ''HSBC'')))
     abbreviations"
  by (simp add: abbreviations_def normalize_expansion_fixed normalize_IBM_expansion
      normalize_HSBC_expansion removeSuffixes_expansions js_inject)

lemma expansion_cases:
  assumes "matchedAbbreviation c = Some (abbr, full)"
  shows "(normalize full = full) = (removeSuffixes None full = full)"
    and "(normalize full = full) = (abbr \<noteq> js ''IBM'' \<and> abbr \<noteq> js ''HSBC'')"
  using abbreviation_cases [OF assms] expansion_table by (auto simp: list_all_iff)

lemma normalize_cleaned:
  assumes "matchedAbbreviation (cleanName x) = None"
  shows "(normalize (cleanName x) = cleanName x)
           = (removeSuffixes None (cleanName x) = cleanName x)"
proof (cases "removeSuffixes None (cleanName x) = cleanName x")
  case True
  then have "cleanName (cleanName x) = cleanName x" by (rule cleanName_fixed)
  with assms have "normalize (cleanName x) = cleanName x"
    by (simp add: normalize_def expandAbbreviation_def)
  with True show ?thesis by simp
next
  case False
  then have len: "length (cleanName (cleanName x)) < length (cleanName x)"
    by (rule cleanName_shorter)
  have "normalize (cleanName x) \<noteq> cleanName x"
  proof
    assume fx: "normalize (cleanName x) = cleanName x"
    from len have ne: "cleanName x \<noteq> []" by auto
    show False
    proof (cases "matchedAbbreviation (cleanName (cleanName x))")
      case None
      with ne have "normalize (cleanName x) = cleanName (cleanName x)"
        by (simp add: normalize_def expandAbbreviation_def)
      with fx len show False by simp
    next
      case (Some e)
      obtain abbr full where e: "e = (abbr, full)" by (cases e)
      with Some ne have "normalize (cleanName x) = full"
        by (simp add: normalize_def expandAbbreviation_def)
      with fx have f: "full = cleanName x" by simp
      from Some e have "(normalize full = full) = (removeSuffixes None full = full)"
        by (intro expansion_cases(1)) simp
      with f fx False show False by simp
    qed
  qed
  with False show ?thesis by simp
qed

text \<open>Claim C1, as the code has it. \<open>normalize (normalize x) = normalize x\<close> holds
  exactly when the suffix pattern finds no match in \<open>normalize x\<close>. When the
  abbreviation step fires on \<open>x\<close>, that is so exactly when the key is neither
  \<open>IBM\<close> nor \<open>HSBC\<close>.\<close>

theorem normalize_idempotent_iff:
  "(normalize (normalize x) = normalize x
      \<longleftrightarrow> removeSuffixes None (normalize x) = normalize x)
   \<and> (matchedAbbreviation (cleanName x) = Some (abbr, full)
      \<longrightarrow> (normalize (normalize x) = normalize x
             \<longleftrightarrow> abbr \<noteq> js ''IBM'' \<and> abbr \<noteq> js ''HSBC''))"
proof (cases "x = []")
  case True
  have "matchedAbbreviation (cleanName []) = None" by (simp add: normalize_eval)
  with True show ?thesis by (simp add: normalize_def)
next
  case False
  show ?thesis
  proof (cases "matchedAbbreviation (cleanName x)")
    case None
    with False have "normalize x = cleanName x"
      by (simp add: normalize_def expandAbbreviation_def)
    with None normalize_cleaned [OF None] show ?thesis by simp
  next
    case (Some e)
    obtain a f where e: "e = (a, f)" by (cases e)
    with Some False have n: "normalize x = f"
      by (simp add: normalize_def expandAbbreviation_def)
    from Some e have m: "matchedAbbreviation (cleanName x) = Some (a, f)" by simp
    from expansion_cases [OF m] n m show ?thesis by auto
  qed
qed

text \<open>The theorem at \<open>GM Corp\<close>, where the abbreviation step fires, at \<open>Tesla Inc\<close>,
  where it does not and the result holds no suffix, and at \<open>Acme Sdn  Bhd\<close> with two
  spaces, where the result holds the suffix \<open>Sdn Bhd\<close>.\<close>

theorem normalize_idempotent_witness:
  "matchedAbbreviation (cleanName (js ''GM Corp'')) = Some (js ''GM'', js ''General Motors'')
   \<and> js ''GM'' \<noteq> js ''IBM'' \<and> js ''GM'' \<noteq> js ''HSBC''
   \<and> normalize (js ''GM Corp'') = js ''General Motors''
   \<and> normalize (normalize (js ''GM Corp'')) = normalize (js ''GM Corp'')
   \<and> normalize (js ''Tesla Inc'') = js ''Tesla''
   \<and> removeSuffixes None (js ''Tesla'') = js ''Tesla''
   \<and> normalize (normalize (js ''Tesla Inc'')) = normalize (js ''Tesla Inc'')
   \<and> normalize (js ''Acme Sdn  Bhd'') = js ''Acme Sdn Bhd''
   \<and> removeSuffixes None (js ''Acme Sdn Bhd'') = js ''Acme ''
   \<and> normalize (normalize (js ''Acme Sdn  Bhd'')) \<noteq> normalize (js ''Acme Sdn  Bhd'')"
proof -
  have 1: "cleanName (js ''GM Corp'') = js ''GM''" by (simp add: normalize_eval)
  have 2: "matchedAbbreviation (js ''GM'') = Some (js ''GM'', js ''General Motors'')"
    by (simp add: normalize_eval)
  have 3: "normalize (js ''GM Corp'') = js ''General Motors''"
    using 1 2 by (simp add: normalize_def expandAbbreviation_def js_def)
  have 4: "normalize (js ''Tesla Inc'') = js ''Tesla''" by (simp add: normalize_eval)
  have 5: "removeSuffixes None (js ''Tesla'') = js ''Tesla''" by (simp add: normalize_eval)
  have 6: "normalize (js ''Acme Sdn  Bhd'') = js ''Acme Sdn Bhd''" by (simp add: normalize_eval)
  have 7: "removeSuffixes None (js ''Acme Sdn Bhd'') = js ''Acme ''" by (simp add: normalize_eval)
  show ?thesis
    using normalize_idempotent_iff [of "js ''GM Corp''" "js ''GM''" "js ''General Motors''"]
      normalize_idempotent_iff [of "js ''Tesla Inc''" "js ''GM''" "js ''General Motors''"]
      normalize_idempotent_iff [of "js ''Acme Sdn  Bhd''" "js ''GM''" "js ''General Motors''"]
      1 2 3 4 5 6 7 by (simp add: js_inject)
qed

text \<open>\<open>normalize\<close> turns \<open>IBM\<close> into its expansion, and the expansion into
  \<open>Business Machines\<close>, since \<open>International\<close> is a suffix. It turns
  \<open>Acme Sdn  Bhd\<close> into \<open>Acme Sdn Bhd\<close>, and this into \<open>Acme\<close>.\<close>

theorem normalize_not_idempotent_counterexample:
  "normalize (normalize (js ''IBM'')) \<noteq> normalize (js ''IBM'')
   \<and> normalize (normalize (js ''Acme Sdn  Bhd'')) \<noteq> normalize (js ''Acme Sdn  Bhd'')"
proof -
  have 1: "normalize (js ''Acme Sdn  Bhd'') = js ''Acme Sdn Bhd''" by (simp add: normalize_eval)
  have 2: "normalize (js ''Acme Sdn Bhd'') = js ''Acme''" by (simp add: normalize_eval)
  show ?thesis by (simp add: normalize_IBM normalize_IBM_expansion 1 2 js_inject)
qed

section \<open>Properties of the knowledge base\<close>

lemma sameValue_refl [simp]: "sameValue v v"
  by (cases v) simp_all


lemma cleared_is_empty:
  "(s :: kb)\<lparr>companies := [], nameIndex := [], tickerIndex := [], aliasIndex := []\<rparr> = emptyKB"
  by (simp add: emptyKB_def)

lemma fromJSON_prior_state:
  "fromJSON nz clock (Some d) s = fromJSON nz clock (Some d) emptyKB"
  by (simp add: fromJSON_def cleared_is_empty)

text \<open>Claim C3, as the code has it. When \<open>JSON.parse\<close> throws, \<open>fromJSON\<close> returns
  false and leaves the state as it was, so the three lookups return what they returned
  before. When the text parses, the maps are cleared before anything is loaded: the
  result and the state that \<open>fromJSON\<close> leaves are those of an import into the empty
  knowledge base, whatever the state before, also when a record makes the import fail.\<close>

theorem import_failure_effects:
  "fromJSON nz clock None s = (False, s)
   \<and> findByName nz (snd (fromJSON nz clock None s)) q = findByName nz s q
   \<and> findByAlias nz (snd (fromJSON nz clock None s)) q = findByAlias nz s q
   \<and> findByTicker (snd (fromJSON nz clock None s)) q = findByTicker s q
   \<and> fromJSON nz clock (Some d) s = fromJSON nz clock (Some d) emptyKB"
  using fromJSON_prior_state [of nz clock d s] by (simp add: fromJSON_def)

text \<open>The knowledge base of the examples is the one that \<open>addCompany\<close> builds.\<close>

lemma appleKB_built:
  "addCompany (Some normalize) 0 emptyKB applePayload = Returned () appleKB"
  by (simp add: addCompany_def applePayload_def appleKB_def appleCompany_def emptyKB_def
      getProp_def normalizeKey_def newSet_def Set_of_def assignProps_def addToIndex_def
      Let_def toUpperCase_def
      normalize_eval)

lemmas kb_eval =
  addCompany_def getProp_def normalizeKey_def newSet_def Set_of_def assignProps_def
  addToIndex_def Let_def toUpperCase_def findByName_def findByTicker_def findByAlias_def
  getCompany_def

lemma broken_import:
  "fromJSON (Some normalize) (\<lambda>i. 1000) (Some brokenPayload) appleKB = (False, teslaKB)"
  by (simp add: fromJSON_def brokenPayload_def teslaKB_def cleared_is_empty emptyKB_def
      kb_eval normalize_eval)

text \<open>The import of a payload whose second record is null returns false, and the company
  that was there before is gone from the three lookups.\<close>

theorem import_load_error_counterexample:
  "fst (fromJSON (Some normalize) (\<lambda>i. 1000) (Some brokenPayload) appleKB) = False
   \<and> valueOf (findByName (Some normalize) appleKB (Str (js ''Apple Inc'')))
        = Some (CompanyResult appleCompany)
   \<and> valueOf (findByName (Some normalize)
        (snd (fromJSON (Some normalize) (\<lambda>i. 1000) (Some brokenPayload) appleKB))
        (Str (js ''Apple Inc''))) = Some NullResult
   \<and> valueOf (findByAlias (Some normalize) appleKB (Str (js ''Apple Computer'')))
        = Some (Some [CompanyResult appleCompany])
   \<and> valueOf (findByAlias (Some normalize)
        (snd (fromJSON (Some normalize) (\<lambda>i. 1000) (Some brokenPayload) appleKB))
        (Str (js ''Apple Computer''))) = Some None
   \<and> valueOf (findByTicker appleKB (Str (js ''AAPL''))) = Some (CompanyResult appleCompany)
   \<and> valueOf (findByTicker
        (snd (fromJSON (Some normalize) (\<lambda>i. 1000) (Some brokenPayload) appleKB))
        (Str (js ''AAPL''))) = Some NullResult"
  unfolding broken_import
  by (simp add: appleKB_def teslaKB_def kb_eval normalize_eval)









section \<open>Properties of the extraction under the timeout\<close>





end
